theory Spec2Isabelle
  imports Complex_Main
begin

section \<open>JavaScript values\<close>

text \<open>
  The controller (\<^verbatim>\<open>src/services/FlightRadarController.ts\<close>) computes with JavaScript
  numbers and with the values that \<^verbatim>\<open>response.json()\<close> returns. A number is either
  \<^verbatim>\<open>NaN\<close> or a real; rounding to binary64 and the two infinities are outside the model,
  except for the session token, a counter whose increment is modelled exactly.
  Strict inequality \<^verbatim>\<open>!==\<close> and the comparison \<^verbatim>\<open>>\<close> follow ECMAScript: every comparison
  with \<^verbatim>\<open>NaN\<close> is false, so \<^verbatim>\<open>NaN !== NaN\<close> is true.
\<close>

datatype jsnum = NaN | Num real

fun strict_neq :: "jsnum \<Rightarrow> jsnum \<Rightarrow> bool" where
  "strict_neq (Num a) (Num b) = (a \<noteq> b)"
| "strict_neq _ _ = True"

fun num_gt :: "jsnum \<Rightarrow> jsnum \<Rightarrow> bool" where
  "num_gt (Num a) (Num b) = (b < a)"
| "num_gt _ _ = False"

fun num_sub :: "jsnum \<Rightarrow> jsnum \<Rightarrow> jsnum" where
  "num_sub (Num a) (Num b) = Num (a - b)"
| "num_sub _ _ = NaN"

fun num_mul :: "jsnum \<Rightarrow> jsnum \<Rightarrow> jsnum" where
  "num_mul (Num a) (Num b) = Num (a * b)"
| "num_mul _ _ = NaN"

text \<open>Division; the controller only divides by the constant 180.\<close>

fun num_div :: "jsnum \<Rightarrow> jsnum \<Rightarrow> jsnum" where
  "num_div (Num a) (Num b) = (if b = 0 then NaN else Num (a / b))"
| "num_div _ _ = NaN"

fun num_cos :: "jsnum \<Rightarrow> jsnum" where
  "num_cos (Num a) = Num (cos a)"
| "num_cos NaN = NaN"

fun num_sin :: "jsnum \<Rightarrow> jsnum" where
  "num_sin (Num a) = Num (sin a)"
| "num_sin NaN = NaN"

fun isNaN :: "jsnum \<Rightarrow> bool" where
  "isNaN NaN = True"
| "isNaN (Num a) = False"

text \<open>\<^verbatim>\<open>n || 0\<close> on a number: \<^verbatim>\<open>NaN\<close> and zero are falsy.\<close>

fun or_zero :: "jsnum \<Rightarrow> jsnum" where
  "or_zero NaN = Num 0"
| "or_zero (Num a) = (if a = 0 then Num 0 else Num a)"

datatype jsval =
    JUndefined
  | JNull
  | JBool bool
  | JNum jsnum
  | JStr string
  | JArr "jsval list"
  | JObj "(string \<times> jsval) list"

datatype js_error = JsError (err_name: string) (err_message: string)

fun truthy :: "jsval \<Rightarrow> bool" where
  "truthy JUndefined = False"
| "truthy JNull = False"
| "truthy (JBool b) = b"
| "truthy (JNum NaN) = False"
| "truthy (JNum (Num a)) = (a \<noteq> 0)"
| "truthy (JStr s) = (s \<noteq> [])"
| "truthy (JArr xs) = True"
| "truthy (JObj kvs) = True"

text \<open>
  Conversion of an object or array to a primitive (ToPrimitive), which \<^verbatim>\<open>Number(v)\<close>,
  \<^verbatim>\<open>String(v)\<close> and the operator \<^verbatim>\<open>*\<close> perform. A value parsed from JSON holds no
  function, so an object with an own key \<^verbatim>\<open>toString\<close> has no callable \<^verbatim>\<open>toString\<close> and
  the inherited \<^verbatim>\<open>valueOf\<close> returns the object itself: the conversion throws a
  TypeError. Every other object converts to \<^verbatim>\<open>"[object Object]"\<close>. An array is joined,
  which converts each element other than \<^verbatim>\<open>null\<close> in turn.
\<close>

fun throws_prim :: "jsval \<Rightarrow> bool" where
  "throws_prim (JObj kvs) = List.member (map fst kvs) ''toString''"
| "throws_prim (JArr xs) = list_ex throws_prim xs"
| "throws_prim v = False"

definition prim_error :: js_error where
  "prim_error = JsError ''TypeError'' ''Cannot convert object to primitive value''"

text \<open>
  \<^verbatim>\<open>Number(v)\<close>. The number that a string denotes (StringToNumber), also the string
  that an array is joined to, is the ECMAScript algorithm, which is not code of the
  repository; it is the parameter \<open>cv\<close> of every function that converts. An object
  that converts at all gives \<^verbatim>\<open>NaN\<close>.
\<close>

fun Number_js :: "(jsval \<Rightarrow> jsnum) \<Rightarrow> jsval \<Rightarrow> js_error + jsnum" where
  "Number_js cv JUndefined = Inr NaN"
| "Number_js cv JNull = Inr (Num 0)"
| "Number_js cv (JBool b) = Inr (if b then Num 1 else Num 0)"
| "Number_js cv (JNum n) = Inr n"
| "Number_js cv (JStr s) = Inr (cv (JStr s))"
| "Number_js cv (JArr xs) =
     (if throws_prim (JArr xs) then Inl prim_error else Inr (cv (JArr xs)))"
| "Number_js cv (JObj kvs) = (if throws_prim (JObj kvs) then Inl prim_error else Inr NaN)"

text \<open>
  \<^verbatim>\<open>String(v)\<close>: only whether it throws matters to the controller, since the strings
  it builds are not carried.
\<close>

definition String_js :: "jsval \<Rightarrow> js_error + unit" where
  "String_js v = (if throws_prim v then Inl prim_error else Inr ())"

text \<open>\<^verbatim>\<open>a || b\<close> on values.\<close>

definition or_js :: "jsval \<Rightarrow> jsval \<Rightarrow> jsval" where
  "or_js a b = (if truthy a then a else b)"

text \<open>Sequencing of computations that may throw.\<close>

definition and_then :: "js_error + 'a \<Rightarrow> ('a \<Rightarrow> js_error + 'b) \<Rightarrow> js_error + 'b" where
  "and_then m f = (case m of Inl e \<Rightarrow> Inl e | Inr v \<Rightarrow> f v)"

text \<open>
  Property access \<^verbatim>\<open>v.key\<close> for the keys the controller reads (\<^verbatim>\<open>ac\<close>, \<^verbatim>\<open>states\<close>,
  \<^verbatim>\<open>lat\<close>, \<^verbatim>\<open>lon\<close>, \<^verbatim>\<open>gs\<close>, \<^verbatim>\<open>track\<close>, \<^verbatim>\<open>alt_baro\<close>, \<^verbatim>\<open>t\<close>, \<^verbatim>\<open>r\<close>, \<^verbatim>\<open>hex\<close>, \<^verbatim>\<open>id\<close>,
  \<^verbatim>\<open>callsign\<close>, \<^verbatim>\<open>flight\<close>), none of which is a property of a prototype: it throws a
  TypeError on \<^verbatim>\<open>null\<close> and \<^verbatim>\<open>undefined\<close>, reads an object (the last of duplicate keys
  wins in \<^verbatim>\<open>JSON.parse\<close>) and is \<^verbatim>\<open>undefined\<close> elsewhere.
\<close>

definition type_error :: js_error where
  "type_error = JsError ''TypeError'' ''Cannot read properties''"

fun get_prop :: "jsval \<Rightarrow> string \<Rightarrow> js_error + jsval" where
  "get_prop JUndefined k = Inl type_error"
| "get_prop JNull k = Inl type_error"
| "get_prop (JObj kvs) k = Inr (case map_of (rev kvs) k of Some v \<Rightarrow> v | None \<Rightarrow> JUndefined)"
| "get_prop v k = Inr JUndefined"

fun string_of_nat :: "nat \<Rightarrow> string" where
  "string_of_nat n =
     (if n < 10 then [char_of (48 + n)]
      else string_of_nat (n div 10) @ [char_of (48 + n mod 10)])"

text \<open>
  Indexed access \<^verbatim>\<open>s[i]\<close> on a value that is neither \<^verbatim>\<open>null\<close> nor \<^verbatim>\<open>undefined\<close>.
\<close>

fun elem :: "jsval \<Rightarrow> nat \<Rightarrow> jsval" where
  "elem (JArr xs) i = (if i < length xs then xs ! i else JUndefined)"
| "elem (JStr s) i = (if i < length s then JStr [s ! i] else JUndefined)"
| "elem (JObj kvs) i =
     (case map_of (rev kvs) (string_of_nat i) of Some v \<Rightarrow> v | None \<Rightarrow> JUndefined)"
| "elem v i = JUndefined"

section \<open>Data model of the controller\<close>

datatype SystemState = IDLE | SCANNING | RECOVERY | FAULT

datatype Level = INFO | WARN | ERROR | SUCCESS

text \<open>
  A \<^verbatim>\<open>FlightProvider\<close> is a string at run time (the type is a union of string literals, and
  \<^verbatim>\<open>App\<close> casts the value of a select box to it). \<^verbatim>\<open>PROVIDER_ORDER[i]\<close> out of range is
  \<^verbatim>\<open>undefined\<close>, here \<open>None\<close>.
\<close>

type_synonym FlightProvider = string

definition PROVIDER_ORDER :: "FlightProvider list" where
  "PROVIDER_ORDER = [''ADSB_LOL'', ''AIRPLANES_LIVE'', ''OPENSKY'']"

definition MAX_FAILURES_PER_PROVIDER :: nat where
  "MAX_FAILURES_PER_PROVIDER = 2"

definition provider_at :: "nat \<Rightarrow> FlightProvider option" where
  "provider_at i = (if i < length PROVIDER_ORDER then Some (PROVIDER_ORDER ! i) else None)"

fun indexOf :: "'a list \<Rightarrow> 'a \<Rightarrow> int" where
  "indexOf [] v = - 1"
| "indexOf (y # ys) v =
     (if y = v then 0 else (let i = indexOf ys v in if i < 0 then - 1 else i + 1))"

text \<open>
  A log entry as handed to the log callback. The \<^verbatim>\<open>timestamp\<close> and the \<^verbatim>\<open>details\<close>
  string (which interpolates wall-clock durations and formatted numbers) are not carried.
\<close>

record LogEntry =
  level :: Level
  message :: string

text \<open>
  The numeric fields of a \<^verbatim>\<open>RadarTarget\<close>. The identification fields (\<^verbatim>\<open>id\<close>,
  \<^verbatim>\<open>callsign\<close>, \<^verbatim>\<open>rcs\<close>, \<^verbatim>\<open>classification\<close>, \<^verbatim>\<open>typeCode\<close>, \<^verbatim>\<open>registration\<close>), the constant
  \<^verbatim>\<open>status\<close> and the two timestamps are computed independently of these and are not
  carried; the conversions to a string that compute them can throw, and that is modelled in \<open>process_item\<close>.
\<close>

record RadarTarget =
  position_x :: jsnum
  position_y :: jsnum
  velocity_vx :: jsnum
  velocity_vy :: jsnum
  altitude :: jsnum
  geo_lat :: jsnum
  geo_lon :: jsnum
  geo_track :: jsnum

record RadarUpdate =
  u_targets :: "RadarTarget list"
  u_state :: SystemState
  u_provider :: "FlightProvider option"

text \<open>
  A timer set by \<^verbatim>\<open>window.setTimeout\<close> and not yet fired or cleared: its handle, its delay
  and the \<^verbatim>\<open>activeSessionId\<close> its closure captured.
\<close>

record pending_timer =
  tid :: nat
  delay :: nat
  tsession :: nat

text \<open>
  An activation of \<^verbatim>\<open>scanLoop\<close> suspended at \<^verbatim>\<open>await this.executeFetchStrategy(...)\<close>: the
  handle of its \<^verbatim>\<open>AbortController\<close>, the captured \<^verbatim>\<open>activeSessionId\<close> and \<^verbatim>\<open>provider\<close>, and
  whether \<^verbatim>\<open>abort()\<close> has been called on it.
\<close>

record request =
  rid :: nat
  rsession :: nat
  rprovider :: "FlightProvider option"
  aborted :: bool

text \<open>
  The fields of the controller, followed by its environment: \<^verbatim>\<open>navigator.onLine\<close>, the
  pending timers, the suspended activations, the next unused handle (timer handles are
  positive, so \<^verbatim>\<open>if (this.timer)\<close> tests for \<^verbatim>\<open>null\<close>), and the entries and snapshots
  handed to the two callbacks, oldest first. The callbacks are taken to be registered
  after construction, as \<^verbatim>\<open>App\<close> does; the constructor's own log call finds no callback.
\<close>

record sys =
  state :: SystemState
  timer :: "nat option"
  abortController :: "nat option"
  failures :: nat
  currentProviderIndex :: nat
  lat :: jsnum
  lon :: jsnum
  rangeKm :: jsnum
  sessionId :: nat
  online :: bool
  timers :: "pending_timer list"
  inflight :: "request list"
  fresh :: nat
  logs :: "LogEntry list"
  updates :: "RadarUpdate list"

definition init :: sys where
  "init = \<lparr> state = IDLE, timer = None, abortController = None, failures = 0,
            currentProviderIndex = 0, lat = Num 0, lon = Num 0, rangeKm = Num 50,
            sessionId = 0, online = True, timers = [], inflight = [], fresh = 1,
            logs = [], updates = [] \<rparr>"

section \<open>Operations of the controller\<close>

definition log_entry :: "Level \<Rightarrow> string \<Rightarrow> sys \<Rightarrow> sys" where
  "log_entry l m s = s\<lparr>logs := logs s @ [\<lparr>level = l, message = m\<rparr>]\<rparr>"

definition dispatch :: "RadarTarget list \<Rightarrow> FlightProvider option \<Rightarrow> sys \<Rightarrow> sys" where
  "dispatch targets provider s =
     s\<lparr>updates := updates s @ [\<lparr>u_targets = targets, u_state = state s, u_provider = provider\<rparr>]\<rparr>"

definition clearTimeout :: "nat \<Rightarrow> pending_timer list \<Rightarrow> pending_timer list" where
  "clearTimeout h ts = filter (\<lambda>t. tid t \<noteq> h) ts"

definition abort :: "nat \<Rightarrow> request list \<Rightarrow> request list" where
  "abort h rs = map (\<lambda>r. if rid r = h then r\<lparr>aborted := True\<rparr> else r) rs"

definition cleanup :: "sys \<Rightarrow> sys" where
  "cleanup s =
     (let s1 = (case timer s of Some h \<Rightarrow> s\<lparr>timers := clearTimeout h (timers s)\<rparr> | None \<Rightarrow> s);
          s2 = (case abortController s1 of
                  Some h \<Rightarrow> s1\<lparr>inflight := abort h (inflight s1)\<rparr> | None \<Rightarrow> s1)
      in s2\<lparr>timer := None, abortController := None\<rparr>)"

definition scheduleNext :: "nat \<Rightarrow> nat \<Rightarrow> sys \<Rightarrow> sys" where
  "scheduleNext d activeSessionId s =
     (if state s = IDLE \<or> activeSessionId \<noteq> sessionId s then s
      else s\<lparr>timer := Some (fresh s),
             timers := timers s @ [\<lparr>tid = fresh s, delay = d, tsession = activeSessionId\<rparr>],
             fresh := fresh s + 1\<rparr>)"

definition rotateProvider :: "sys \<Rightarrow> sys" where
  "rotateProvider s =
     s\<lparr>currentProviderIndex := (currentProviderIndex s + 1) mod length PROVIDER_ORDER\<rparr>"

text \<open>
  \<^verbatim>\<open>scanLoop\<close> up to its \<^verbatim>\<open>await\<close>: the two guards, the connectivity check, and the
  request (\<^verbatim>\<open>executeFetchStrategy\<close> logs the uplink before it calls \<^verbatim>\<open>fetch\<close>).
\<close>

definition scanLoop :: "nat \<Rightarrow> sys \<Rightarrow> sys" where
  "scanLoop activeSessionId s =
     (if activeSessionId \<noteq> sessionId s then s
      else if state s = IDLE then s
      else if \<not> online s then
        scheduleNext 5000 activeSessionId
          ((log_entry ERROR ''Network Link Offline'' s)\<lparr>state := FAULT\<rparr>)
      else
        log_entry INFO ''uplinking...''
          (s\<lparr>abortController := Some (fresh s),
             inflight := inflight s @
               [\<lparr>rid = fresh s, rsession = activeSessionId,
                 rprovider = provider_at (currentProviderIndex s), aborted = False\<rparr>],
             fresh := fresh s + 1\<rparr>))"

text \<open>
  \<^verbatim>\<open>this.sessionId++\<close>. The token is a binary64 number that starts at 0 and changes
  only here: below \<open>2\<^sup>5\<^sup>3\<close> the increment is exact, and at \<open>2\<^sup>5\<^sup>3\<close> the sum rounds
  back to \<open>2\<^sup>5\<^sup>3\<close>, so that no larger value arises.
\<close>

definition next_session :: "nat \<Rightarrow> nat" where
  "next_session n = (if n < 9007199254740992 then n + 1 else n)"

definition restart :: "sys \<Rightarrow> sys" where
  "restart s = (let s1 = cleanup s in scanLoop (sessionId s1) s1)"

definition setConfig :: "FlightProvider \<Rightarrow> jsnum \<Rightarrow> jsnum \<Rightarrow> jsnum \<Rightarrow> sys \<Rightarrow> sys" where
  "setConfig provider la lo rk s =
     (let newIndex = indexOf PROVIDER_ORDER provider;
          changed = (strict_neq (lat s) la \<or> strict_neq (lon s) lo \<or> strict_neq (rangeKm s) rk);
          s1 = s\<lparr>currentProviderIndex := (if newIndex \<ge> 0 then nat newIndex else 0),
                 lat := la, lon := lo, rangeKm := rk\<rparr>
      in if changed then
           (let s2 = log_entry INFO ''Configuration Updated'' s1;
                s3 = s2\<lparr>sessionId := next_session (sessionId s2)\<rparr>
            in if state s3 = SCANNING then restart s3 else s3)
         else s1)"

definition start :: "sys \<Rightarrow> sys" where
  "start s =
     (if state s = SCANNING then s
      else (let s1 = log_entry INFO ''System Start Sequence Initiated'' s;
                s2 = s1\<lparr>failures := 0, state := SCANNING\<rparr>
            in scanLoop (sessionId s2) s2))"

definition stop :: "sys \<Rightarrow> sys" where
  "stop s =
     (if state s = IDLE then s
      else cleanup ((log_entry INFO ''System Shutdown Sequence'' s)\<lparr>state := IDLE\<rparr>))"

section \<open>The fetch and the normalizer\<close>

text \<open>
  What the network hands back to \<^verbatim>\<open>executeFetchStrategy\<close>: the promise of \<^verbatim>\<open>fetch\<close>
  rejects, or it resolves to a response with its \<^verbatim>\<open>ok\<close> flag, whose \<^verbatim>\<open>json()\<close> promise
  rejects (a SyntaxError when the body is not JSON) or resolves to the parsed value.
\<close>

datatype body = JsonRejected js_error | Json jsval

datatype net_result = FetchRejected js_error | Response bool body

text \<open>
  The \<^verbatim>\<open>catch\<close> block of \<^verbatim>\<open>executeFetchStrategy\<close>. Every URL built by the function is
  empty or starts with \<^verbatim>\<open>https:\<close>, so \<^verbatim>\<open>url.startsWith('http:')\<close> is false and the
  mixed-content error is never the one thrown.
\<close>

definition fetch_catch :: "js_error \<Rightarrow> js_error" where
  "fetch_catch e =
     (if err_message e = ''Failed to fetch''
      then JsError ''Error'' ''Network Error (CORS/Connection Refused)''
      else e)"

fun map_throw :: "('a \<Rightarrow> js_error + 'b) \<Rightarrow> 'a list \<Rightarrow> js_error + 'b list" where
  "map_throw f [] = Inr []"
| "map_throw f (v # vs) =
     (case f v of
        Inl e \<Rightarrow> Inl e
      | Inr w \<Rightarrow> (case map_throw f vs of Inl e \<Rightarrow> Inl e | Inr ws \<Rightarrow> Inr (w # ws)))"

text \<open>
  The record built from one OpenSky state vector \<^verbatim>\<open>s\<close>. The two products convert
  their operand to a number and may throw.
\<close>

definition opensky_item :: "(jsval \<Rightarrow> jsnum) \<Rightarrow> jsval \<Rightarrow> js_error + jsval" where
  "opensky_item cv s =
     (if s = JNull \<or> s = JUndefined then Inl type_error
      else
        and_then
          (if truthy (elem s 7)
           then and_then (Number_js cv (elem s 7)) (\<lambda>n. Inr (num_mul n (Num 3.28084)))
           else Inr (Num 0))
          (\<lambda>alt_baro.
        and_then (Number_js cv (or_js (elem s 9) (JNum (Num 0))))
          (\<lambda>n.
        Inr (JObj
          [(''hex'', elem s 0), (''callsign'', elem s 1), (''lat'', elem s 6),
           (''lon'', elem s 5), (''alt_baro'', JNum alt_baro),
           (''gs'', JNum (num_mul n (Num 1.94384))),
           (''track'', elem s 10), (''t'', JStr []), (''r'', JStr [])]))))"

definition not_a_function :: js_error where
  "not_a_function = JsError ''TypeError'' ''map is not a function''"

text \<open>The block "Validation / Parsing" applied to the parsed body.\<close>

definition validate :: "(jsval \<Rightarrow> jsnum) \<Rightarrow> FlightProvider option \<Rightarrow> jsval \<Rightarrow> js_error + jsval" where
  "validate cv provider json =
     (if provider = Some ''ADSB_LOL'' \<or> provider = Some ''AIRPLANES_LIVE'' then
        (case get_prop json ''ac'' of
           Inl e \<Rightarrow> Inl e
         | Inr v \<Rightarrow> Inr (if truthy v then v else JArr []))
      else if provider = Some ''OPENSKY'' then
        (case get_prop json ''states'' of
           Inl e \<Rightarrow> Inl e
         | Inr v \<Rightarrow>
             (case (if truthy v then v else JArr []) of
                JArr ss \<Rightarrow>
                  (case map_throw (opensky_item cv) ss of
                     Inl e \<Rightarrow> Inl e
                   | Inr items \<Rightarrow> Inr (JArr items))
              | _ \<Rightarrow> Inl not_a_function))
      else Inr (JArr []))"

text \<open>
  \<^verbatim>\<open>executeFetchStrategy\<close> from its \<^verbatim>\<open>await fetch(...)\<close> on: the value it returns or the
  error it throws. The status line of a response that is not \<^verbatim>\<open>ok\<close> is not carried.
\<close>

definition executeFetchStrategy ::
  "(jsval \<Rightarrow> jsnum) \<Rightarrow> FlightProvider option \<Rightarrow> net_result \<Rightarrow> js_error + jsval" where
  "executeFetchStrategy cv provider res =
     (case res of
        FetchRejected e \<Rightarrow> Inl (fetch_catch e)
      | Response ok b \<Rightarrow>
          if \<not> ok then Inl (fetch_catch (JsError ''Error'' ''HTTP''))
          else (case b of
                  JsonRejected e \<Rightarrow> Inl (fetch_catch e)
                | Json json \<Rightarrow>
                    (case validate cv provider json of
                       Inl e \<Rightarrow> Inl (fetch_catch e)
                     | Inr rawData \<Rightarrow> Inr rawData)))"

definition the_prop :: "jsval \<Rightarrow> string \<Rightarrow> jsval" where
  "the_prop item k = (case get_prop item k of Inr v \<Rightarrow> v | Inl e \<Rightarrow> JUndefined)"

text \<open>
  The callback that \<^verbatim>\<open>processTargets\<close> maps over \<^verbatim>\<open>rawData\<close>; \<open>None\<close> is its \<^verbatim>\<open>null\<close>.
  \<open>la\<close> and \<open>lo\<close> are \<^verbatim>\<open>this.lat\<close> and \<^verbatim>\<open>this.lon\<close>. The conversions are made in the
  order of the source, each of them able to throw: \<^verbatim>\<open>lat\<close> and \<^verbatim>\<open>lon\<close> before the
  \<^verbatim>\<open>NaN\<close> test, then \<^verbatim>\<open>gs\<close>, \<^verbatim>\<open>track\<close>, the type code, the identifier, the call sign,
  \<^verbatim>\<open>alt_baro\<close> and the registration.
\<close>

definition process_item ::
  "(jsval \<Rightarrow> jsnum) \<Rightarrow> jsnum \<Rightarrow> jsnum \<Rightarrow> jsval \<Rightarrow> js_error + RadarTarget option" where
  "process_item cv la lo item =
     and_then (get_prop item ''lat'') (\<lambda>lat_v.
     and_then (Number_js cv lat_v) (\<lambda>lat1.
     and_then (Number_js cv (the_prop item ''lon'')) (\<lambda>lon1.
       if isNaN lat1 \<or> isNaN lon1 then Inr None
       else
         and_then (Number_js cv (the_prop item ''gs'')) (\<lambda>gs.
         and_then (Number_js cv (the_prop item ''track'')) (\<lambda>track.
         and_then (String_js (or_js (the_prop item ''t'') (JStr []))) (\<lambda>_.
         and_then (String_js (or_js (or_js (the_prop item ''hex'') (the_prop item ''id''))
                                (JStr ''UNK''))) (\<lambda>_.
         and_then (String_js (or_js (or_js (the_prop item ''callsign'') (the_prop item ''flight''))
                                (JStr []))) (\<lambda>_.
         and_then (Number_js cv (the_prop item ''alt_baro'')) (\<lambda>alt_baro.
         and_then (String_js (or_js (the_prop item ''r'') (JStr []))) (\<lambda>_.
           (let latDiff = num_sub lat1 la;
                lngDiff = num_sub lon1 lo;
                y = num_mul latDiff (Num 110574);
                x = num_mul lngDiff
                      (num_mul (Num 111320)
                         (num_cos (num_div (num_mul la (Num pi)) (Num 180))));
                speedKnots = or_zero gs;
                speedMs = num_mul speedKnots (Num 0.514444);
                headingRad = num_div (num_mul (or_zero track) (Num pi)) (Num 180)
            in Inr (Some
                 \<lparr> position_x = x, position_y = y,
                   velocity_vx = num_mul speedMs (num_sin headingRad),
                   velocity_vy = num_mul speedMs (num_cos headingRad),
                   altitude = num_mul (or_zero alt_baro) (Num 0.3048),
                   geo_lat = lat1, geo_lon = lon1,
                   geo_track = or_zero track \<rparr>))))))))))))"

definition processTargets ::
  "(jsval \<Rightarrow> jsnum) \<Rightarrow> jsnum \<Rightarrow> jsnum \<Rightarrow> jsval \<Rightarrow> js_error + RadarTarget list" where
  "processTargets cv la lo rawData =
     (case rawData of
        JArr items \<Rightarrow>
          (case map_throw (process_item cv la lo) items of
             Inl e \<Rightarrow> Inl e
           | Inr os \<Rightarrow> Inr (map the (filter (\<lambda>t. t \<noteq> None) os)))
      | _ \<Rightarrow> Inl not_a_function)"

section \<open>The loop after the await\<close>

definition show_provider :: "FlightProvider option \<Rightarrow> string" where
  "show_provider p = (case p of Some n \<Rightarrow> n | None \<Rightarrow> ''undefined'')"

text \<open>The \<^verbatim>\<open>catch\<close> block of \<^verbatim>\<open>scanLoop\<close> in the activation \<open>r\<close>.\<close>

definition scanLoop_catch :: "request \<Rightarrow> js_error \<Rightarrow> sys \<Rightarrow> sys" where
  "scanLoop_catch r error s =
     (if rsession r \<noteq> sessionId s then s
      else if err_name error = ''AbortError'' then s
      else
        (let s1 = s\<lparr>failures := failures s + 1\<rparr>;
             s2 = log_entry ERROR (''Scan Failed ('' @ show_provider (rprovider r) @ '')'') s1
         in if failures s2 \<ge> MAX_FAILURES_PER_PROVIDER then
              (let s3 = rotateProvider (s2\<lparr>failures := 0\<rparr>);
                   s4 = log_entry WARN ''Rerouting Data Link'' s3
               in scheduleNext 1000 (rsession r) s4)
            else scheduleNext 3000 (rsession r) s2))"

text \<open>Step 5 of \<^verbatim>\<open>scanLoop\<close>, "Success Handling", and the two calls after it.\<close>

definition scanLoop_success :: "request \<Rightarrow> RadarTarget list \<Rightarrow> sys \<Rightarrow> sys" where
  "scanLoop_success r targets s =
     (let s1 = s\<lparr>failures := 0, state := SCANNING\<rparr>;
          s2 = (if length targets > 0
                then log_entry SUCCESS
                       (''Target Lock: '' @ string_of_nat (length targets) @ '' Aircraft'') s1
                else log_entry INFO ''Scan Complete - Sector Clear'' s1);
          s3 = dispatch targets (rprovider r) s2
      in scheduleNext (if num_gt (rangeKm s3) (Num 300) then 15000 else 6000) (rsession r) s3)"

text \<open>
  \<^verbatim>\<open>scanLoop\<close> from its \<^verbatim>\<open>await\<close> on, in the activation \<open>r\<close>, when the network has
  answered \<open>res\<close>.
\<close>

definition scanLoop_resume :: "(jsval \<Rightarrow> jsnum) \<Rightarrow> request \<Rightarrow> net_result \<Rightarrow> sys \<Rightarrow> sys" where
  "scanLoop_resume cv r res s =
     (case executeFetchStrategy cv (rprovider r) res of
        Inl error \<Rightarrow> scanLoop_catch r error s
      | Inr rawData \<Rightarrow>
          if rsession r \<noteq> sessionId s then s
          else (case processTargets cv (lat s) (lon s) rawData of
                  Inl error \<Rightarrow> scanLoop_catch r error s
                | Inr targets \<Rightarrow> scanLoop_success r targets s))"

section \<open>Runs\<close>

text \<open>
  What can happen to a controller: a call of its public interface, a change of
  \<^verbatim>\<open>navigator.onLine\<close>, a pending timer firing, and a suspended activation resuming with
  the answer of the network. A timer that is not pending cannot fire and an activation
  that is not suspended cannot resume: such events leave the state as it is. Any
  suspended activation may resume with any answer; that an aborted request rejects with
  an AbortError is not assumed.
\<close>

datatype event =
    SetConfig FlightProvider jsnum jsnum jsnum
  | Start
  | Stop
  | Net bool
  | TimerFires nat
  | FetchSettles nat net_result

fun step :: "(jsval \<Rightarrow> jsnum) \<Rightarrow> event \<Rightarrow> sys \<Rightarrow> sys" where
  "step cv (SetConfig provider la lo rk) s = setConfig provider la lo rk s"
| "step cv Start s = start s"
| "step cv Stop s = stop s"
| "step cv (Net b) s = s\<lparr>online := b\<rparr>"
| "step cv (TimerFires h) s =
     (case find (\<lambda>t. tid t = h) (timers s) of
        None \<Rightarrow> s
      | Some t \<Rightarrow> scanLoop (tsession t) (s\<lparr>timers := clearTimeout h (timers s)\<rparr>))"
| "step cv (FetchSettles h res) s =
     (case find (\<lambda>r. rid r = h) (inflight s) of
        None \<Rightarrow> s
      | Some r \<Rightarrow>
          scanLoop_resume cv r res (s\<lparr>inflight := filter (\<lambda>r. rid r \<noteq> h) (inflight s)\<rparr>))"

fun run :: "(jsval \<Rightarrow> jsnum) \<Rightarrow> event list \<Rightarrow> sys \<Rightarrow> sys" where
  "run cv [] s = s"
| "run cv (e # es) s = run cv es (step cv e s)"

section \<open>Vocabulary of the statements\<close>

text \<open>
  The outcome of the \<^verbatim>\<open>try\<close> block of an activation whose session is still current:
  the error that reaches the \<^verbatim>\<open>catch\<close> block, or the targets handed to the success path.
\<close>

definition settle ::
  "(jsval \<Rightarrow> jsnum) \<Rightarrow> FlightProvider option \<Rightarrow> jsnum \<Rightarrow> jsnum \<Rightarrow> net_result \<Rightarrow>
     js_error + RadarTarget list" where
  "settle cv provider la lo res =
     (case executeFetchStrategy cv provider res of
        Inl e \<Rightarrow> Inl e
      | Inr rawData \<Rightarrow> processTargets cv la lo rawData)"

text \<open>The three states that some statement of the controller assigns.\<close>

definition assigned :: "SystemState \<Rightarrow> bool" where
  "assigned st = (st = IDLE \<or> st = SCANNING \<or> st = FAULT)"

text \<open>
  Concrete inputs: a conversion that knows no string, the record of one aircraft, a
  response of ADSB_LOL carrying it, and the rejection of \<^verbatim>\<open>fetch\<close> on a network failure.
\<close>

definition no_conversion :: "jsval \<Rightarrow> jsnum" where
  "no_conversion v = NaN"

definition example_item :: jsval where
  "example_item =
     JObj [(''lat'', JNum (Num 51.01)), (''lon'', JNum (Num 0.02)),
           (''alt_baro'', JNum (Num 35000)), (''gs'', JNum (Num 450)),
           (''track'', JNum (Num 90))]"

definition example_response :: net_result where
  "example_response = Response True (Json (JObj [(''ac'', JArr [example_item])]))"

definition transport_error :: net_result where
  "transport_error = FetchRejected (JsError ''TypeError'' ''Failed to fetch'')"

text \<open>
  The three comparisons of \<^verbatim>\<open>setConfig\<close> and the cursor it assigns; for the proofs,
  \<^verbatim>\<open>clearTimeout\<close> and \<^verbatim>\<open>abort\<close> on a handle that may be \<^verbatim>\<open>null\<close>.
\<close>

definition changed :: "sys \<Rightarrow> jsnum \<Rightarrow> jsnum \<Rightarrow> jsnum \<Rightarrow> bool" where
  "changed s la lo rk =
     (strict_neq (lat s) la \<or> strict_neq (lon s) lo \<or> strict_neq (rangeKm s) rk)"

definition cursor_for :: "FlightProvider \<Rightarrow> nat" where
  "cursor_for p = (if 0 \<le> indexOf PROVIDER_ORDER p then nat (indexOf PROVIDER_ORDER p) else 0)"

fun clear_opt :: "nat option \<Rightarrow> pending_timer list \<Rightarrow> pending_timer list" where
  "clear_opt None ts = ts"
| "clear_opt (Some h) ts = clearTimeout h ts"

fun abort_opt :: "nat option \<Rightarrow> request list \<Rightarrow> request list" where
  "abort_opt None rs = rs"
| "abort_opt (Some h) rs = abort h rs"


text \<open>
  Every handle in use is below the next unused one.
\<close>

definition handles_fresh :: "sys \<Rightarrow> bool" where
  "handles_fresh s =
     ((\<forall>t \<in> set (timers s). tid t < fresh s) \<and> (\<forall>r \<in> set (inflight s). rid r < fresh s))"

text \<open>
  The scheduled operations that will run an iteration under the current session: the
  pending timers that carry the current token, and the suspended activations that carry
  it and have not been aborted.
\<close>

definition outstanding :: "sys \<Rightarrow> nat" where
  "outstanding s =
     length (filter (\<lambda>t. tsession t = sessionId s) (timers s)) +
     length (filter (\<lambda>r. rsession r = sessionId s \<and> \<not> aborted r) (inflight s))"

text \<open>
  Two malformed answers: the JSON object with no field at all, and a body on which
  \<^verbatim>\<open>response.json()\<close> rejects with a SyntaxError.
\<close>

definition empty_object_response :: net_result where
  "empty_object_response = Response True (Json (JObj []))"

definition parse_failure :: "string \<Rightarrow> net_result" where
  "parse_failure m = Response True (JsonRejected (JsError ''SyntaxError'' m))"

text \<open>
  The Maclaurin polynomial of the cosine of degree 10, and closeness of a number to a
  figure of the specification up to a tolerance.
\<close>

definition cos_poly :: "real \<Rightarrow> real" where
  "cos_poly x = 1 - x^2 / 2 + x^4 / 24 - x^6 / 720 + x^8 / 40320 - x^10 / 3628800"

fun close_to :: "real \<Rightarrow> jsnum \<Rightarrow> real \<Rightarrow> bool" where
  "close_to tol (Num a) c = (\<bar>a - c\<bar> \<le> tol)"
| "close_to tol NaN c = False"

section \<open>Unfolding and small facts\<close>

lemmas ctl_defs = init_def start_def stop_def setConfig_def restart_def cleanup_def scanLoop_def
  log_entry_def scheduleNext_def provider_at_def PROVIDER_ORDER_def dispatch_def clearTimeout_def
  abort_def rotateProvider_def scanLoop_resume_def scanLoop_catch_def scanLoop_success_def
  MAX_FAILURES_PER_PROVIDER_def show_provider_def next_session_def Let_def

lemmas fetch_defs = executeFetchStrategy_def validate_def processTargets_def process_item_def
  the_prop_def fetch_catch_def opensky_item_def type_error_def not_a_function_def
  String_js_def or_js_def and_then_def prim_error_def

lemma length_PROVIDER_ORDER: "length PROVIDER_ORDER = 3"
  by (simp add: PROVIDER_ORDER_def)

lemma find_last_fresh:
  assumes "\<forall>x \<in> set xs. \<not> P x" and "P y"
  shows "find P (xs @ [y]) = Some y"
  using assms by (induction xs) simp_all

lemma filter_last_fresh:
  assumes "\<forall>x \<in> set xs. P x" and "\<not> P y"
  shows "filter P (xs @ [y]) = xs"
  using assms by (induction xs) simp_all

lemma scanLoop_resume_settle:
  "rsession r = sessionId s \<Longrightarrow>
   scanLoop_resume cv r res s =
     (case settle cv (rprovider r) (lat s) (lon s) res of
        Inl e \<Rightarrow> scanLoop_catch r e s
      | Inr targets \<Rightarrow> scanLoop_success r targets s)"
  by (simp add: scanLoop_resume_def settle_def split: sum.splits)

lemma cleanup_eq:
  "cleanup s = s\<lparr>timer := None, abortController := None,
                   timers := clear_opt (timer s) (timers s),
                   inflight := abort_opt (abortController s) (inflight s)\<rparr>"
  by (cases "timer s"; cases "abortController s") (simp_all add: cleanup_def)

lemma scanLoop_online:
  assumes "a = sessionId s" and "state s \<noteq> IDLE" and "online s"
  shows "scanLoop a s =
           s\<lparr>abortController := Some (fresh s),
             inflight := inflight s @
               [\<lparr>rid = fresh s, rsession = sessionId s,
                 rprovider = provider_at (currentProviderIndex s), aborted = False\<rparr>],
             fresh := fresh s + 1,
             logs := logs s @ [\<lparr>level = INFO, message = ''uplinking...''\<rparr>]\<rparr>"
  using assms by (simp add: scanLoop_def log_entry_def)

lemma scanLoop_offline:
  assumes "a = sessionId s" and "state s \<noteq> IDLE" and "\<not> online s"
  shows "scanLoop a s =
           s\<lparr>state := FAULT, timer := Some (fresh s),
             timers := timers s @ [\<lparr>tid = fresh s, delay = 5000, tsession = sessionId s\<rparr>],
             fresh := fresh s + 1,
             logs := logs s @ [\<lparr>level = ERROR, message = ''Network Link Offline''\<rparr>]\<rparr>"
  using assms by (simp add: scanLoop_def scheduleNext_def log_entry_def)

lemma settle_example:
  "\<exists>t. settle cv (Some ''ADSB_LOL'') la lo example_response = Inr [t]"
  by (simp add: settle_def fetch_defs example_response_def example_item_def Let_def)

lemma settle_transport_error:
  "settle cv p la lo transport_error =
     Inl (JsError ''Error'' ''Network Error (CORS/Connection Refused)'')"
  by (simp add: settle_def executeFetchStrategy_def transport_error_def fetch_catch_def)

lemma settle_parse_failure:
  "\<exists>e. settle cv p la lo (parse_failure m) = Inl e \<and> err_name e \<noteq> ''AbortError''"
  by (simp add: settle_def executeFetchStrategy_def parse_failure_def fetch_catch_def)

lemma settle_missing_ac:
  assumes "p = Some ''ADSB_LOL'' \<or> p = Some ''AIRPLANES_LIVE''" and "map_of (rev kvs) ''ac'' = None"
  shows "settle cv p la lo (Response True (Json (JObj kvs))) = Inr []"
  using assms by (auto simp: settle_def executeFetchStrategy_def validate_def processTargets_def)

lemma settle_missing_states:
  assumes "map_of (rev kvs) ''states'' = None"
  shows "settle cv (Some ''OPENSKY'') la lo (Response True (Json (JObj kvs))) = Inr []"
  using assms by (simp add: settle_def executeFetchStrategy_def validate_def processTargets_def)

section \<open>Stale sessions\<close>

text \<open>
  C1. A suspended activation whose captured session token differs from the current one
  (in particular an older one, after \<^verbatim>\<open>setConfig\<close> has moved the position) resumes to no
  effect, whatever the network answers: the activation ends, and the snapshots, the log,
  the timers and every field of the controller stay as they were.
\<close>

theorem stale_result_discarded:
  assumes "find (\<lambda>r. rid r = h) (inflight s) = Some r"
    and "rsession r \<noteq> sessionId s"
  shows "step cv (FetchSettles h res) s =
           s\<lparr>inflight := filter (\<lambda>r. rid r \<noteq> h) (inflight s)\<rparr>"
  using assms
  by (simp add: scanLoop_resume_def scanLoop_catch_def split: sum.splits)

theorem stale_result_discarded_witness:
  "sessionId (run no_conversion [Start, SetConfig ''OPENSKY'' (Num 51) (Num 0) (Num 50)] init) = 1 \<and>
   inflight (run no_conversion [Start, SetConfig ''OPENSKY'' (Num 51) (Num 0) (Num 50)] init) =
     [\<lparr>rid = 1, rsession = 0, rprovider = Some ''ADSB_LOL'', aborted = True\<rparr>,
      \<lparr>rid = 2, rsession = 1, rprovider = Some ''OPENSKY'', aborted = False\<rparr>] \<and>
   updates (run no_conversion
      [Start, SetConfig ''OPENSKY'' (Num 51) (Num 0) (Num 50), FetchSettles 1 example_response]
      init) = [] \<and>
   timers (run no_conversion
      [Start, SetConfig ''OPENSKY'' (Num 51) (Num 0) (Num 50), FetchSettles 1 example_response]
      init) = []"
  using stale_result_discarded
    [of 1 "run no_conversion [Start, SetConfig ''OPENSKY'' (Num 51) (Num 0) (Num 50)] init"
        "\<lparr>rid = 1, rsession = 0, rprovider = Some ''ADSB_LOL'', aborted = True\<rparr>"
        no_conversion example_response]
  by (simp add: ctl_defs)

section \<open>The unreachable network\<close>

text \<open>
  C5. An iteration that passes the two guards and finds \<^verbatim>\<open>navigator.onLine\<close> false logs
  one ERROR entry, sets the state to FAULT and sets one timer of 5000 ms under the same
  session token, and does nothing else: no request is issued, and the provider cursor and
  the failure counter keep their values, whatever they are.
\<close>

theorem unreachable_backoff:
  assumes "activeSessionId = sessionId s" and "state s \<noteq> IDLE" and "\<not> online s"
  shows "scanLoop activeSessionId s =
           s\<lparr>state := FAULT, timer := Some (fresh s),
             timers := timers s @ [\<lparr>tid = fresh s, delay = 5000, tsession = sessionId s\<rparr>],
             fresh := fresh s + 1,
             logs := logs s @ [\<lparr>level = ERROR, message = ''Network Link Offline''\<rparr>]\<rparr>"
  using assms by (rule scanLoop_offline)

theorem unreachable_backoff_witness:
  "failures (run no_conversion [Start, FetchSettles 1 transport_error, Net False] init) = 1 \<and>
   state (run no_conversion [Start, FetchSettles 1 transport_error, Net False] init) = SCANNING \<and>
   scanLoop 0 (run no_conversion [Start, FetchSettles 1 transport_error, Net False] init) =
     \<lparr>state = FAULT, timer = Some 3, abortController = Some 1, failures = 1,
       currentProviderIndex = 0, lat = Num 0, lon = Num 0, rangeKm = Num 50,
       sessionId = 0, online = False,
       timers = [\<lparr>tid = 2, delay = 3000, tsession = 0\<rparr>, \<lparr>tid = 3, delay = 5000, tsession = 0\<rparr>],
       inflight = [], fresh = 4,
       logs = [\<lparr>level = INFO, message = ''System Start Sequence Initiated''\<rparr>,
               \<lparr>level = INFO, message = ''uplinking...''\<rparr>,
               \<lparr>level = ERROR, message = ''Scan Failed (ADSB_LOL)''\<rparr>,
               \<lparr>level = ERROR, message = ''Network Link Offline''\<rparr>],
       updates = []\<rparr>"
  using unreachable_backoff
    [of 0 "run no_conversion [Start, FetchSettles 1 transport_error, Net False] init"]
  by (simp add: ctl_defs transport_error_def fetch_defs)

section \<open>The success path\<close>

text \<open>
  C7. When an activation under the current session resumes and its \<^verbatim>\<open>try\<close> block
  yields targets, the failure counter is 0 and the state is SCANNING, the snapshot handed
  to the update callback already carries the state SCANNING, and one timer is set under
  the same token whose delay is 15000 ms when \<^verbatim>\<open>rangeKm > 300\<close> and 6000 ms otherwise
  (400 km gives 15000 ms and 50 km gives 6000 ms).
\<close>

theorem success_schedule:
  assumes "find (\<lambda>r. rid r = h) (inflight s) = Some r"
    and "rsession r = sessionId s"
    and "settle cv (rprovider r) (lat s) (lon s) res = Inr targets"
  shows "step cv (FetchSettles h res) s =
           s\<lparr>failures := 0, state := SCANNING, timer := Some (fresh s),
             inflight := filter (\<lambda>r. rid r \<noteq> h) (inflight s),
             timers := timers s @
               [\<lparr>tid = fresh s,
                 delay = (if num_gt (rangeKm s) (Num 300) then 15000 else 6000),
                 tsession = sessionId s\<rparr>],
             fresh := fresh s + 1,
             logs := logs s @
               [if 0 < length targets
                then \<lparr>level = SUCCESS,
                      message = ''Target Lock: '' @ string_of_nat (length targets) @ '' Aircraft''\<rparr>
                else \<lparr>level = INFO, message = ''Scan Complete - Sector Clear''\<rparr>],
             updates := updates s @
               [\<lparr>u_targets = targets, u_state = SCANNING, u_provider = rprovider r\<rparr>]\<rparr>"
  using assms
  by (simp add: scanLoop_resume_settle scanLoop_success_def scheduleNext_def log_entry_def
      dispatch_def Let_def)

theorem success_schedule_witness:
  "timers (run no_conversion
     [SetConfig ''ADSB_LOL'' (Num 51) (Num 0) (Num 400), Start, FetchSettles 1 example_response]
     init) = [\<lparr>tid = 2, delay = 15000, tsession = 1\<rparr>] \<and>
   timers (run no_conversion
     [SetConfig ''ADSB_LOL'' (Num 51) (Num 0) (Num 50), Start, FetchSettles 1 example_response]
     init) = [\<lparr>tid = 2, delay = 6000, tsession = 1\<rparr>] \<and>
   map u_state (updates (run no_conversion
     [SetConfig ''ADSB_LOL'' (Num 51) (Num 0) (Num 400), Start, FetchSettles 1 example_response]
     init)) = [SCANNING]"
proof -
  obtain t where t: "settle no_conversion (Some ''ADSB_LOL'') (Num 51) (Num 0) example_response = Inr [t]"
    using settle_example by blast
  show ?thesis
    using success_schedule
      [of 1 "run no_conversion [SetConfig ''ADSB_LOL'' (Num 51) (Num 0) (Num 400), Start] init"
          "\<lparr>rid = 1, rsession = 1, rprovider = Some ''ADSB_LOL'', aborted = False\<rparr>"
          no_conversion example_response "[t]"]
      success_schedule
      [of 1 "run no_conversion [SetConfig ''ADSB_LOL'' (Num 51) (Num 0) (Num 50), Start] init"
          "\<lparr>rid = 1, rsession = 1, rprovider = Some ''ADSB_LOL'', aborted = False\<rparr>"
          no_conversion example_response "[t]"]
      t
    by (simp add: ctl_defs)
qed

section \<open>Handles\<close>

lemma set_clear_opt: "set (clear_opt h ts) \<subseteq> set ts"
  by (cases h) (auto simp: clearTimeout_def)

lemma rid_abort_opt: "r \<in> set (abort_opt h rs) \<Longrightarrow> \<exists>q \<in> set rs. rid q = rid r"
  by (cases h) (auto simp: abort_def)

lemma fresh_log_entry: "handles_fresh (log_entry l m s) = handles_fresh s"
  by (simp add: handles_fresh_def log_entry_def)

lemma fresh_scheduleNext: "handles_fresh s \<Longrightarrow> handles_fresh (scheduleNext d a s)"
  by (auto simp: handles_fresh_def scheduleNext_def less_Suc_eq)

lemma fresh_cleanup: "handles_fresh s \<Longrightarrow> handles_fresh (cleanup s)"
  using set_clear_opt [of "timer s" "timers s"] rid_abort_opt [of _ "abortController s" "inflight s"]
  by (fastforce simp: handles_fresh_def cleanup_eq)

lemma fresh_scanLoop: "handles_fresh s \<Longrightarrow> handles_fresh (scanLoop a s)"
proof -
  assume h: "handles_fresh s"
  have "handles_fresh ((log_entry ERROR ''Network Link Offline'' s)\<lparr>state := FAULT\<rparr>)"
    using h by (simp add: handles_fresh_def log_entry_def)
  then have off: "handles_fresh (scheduleNext 5000 a ((log_entry ERROR ''Network Link Offline'' s)\<lparr>state := FAULT\<rparr>))"
    by (rule fresh_scheduleNext)
  have on: "handles_fresh (log_entry INFO ''uplinking...''
          (s\<lparr>abortController := Some (fresh s),
             inflight := inflight s @
               [\<lparr>rid = fresh s, rsession = a,
                 rprovider = provider_at (currentProviderIndex s), aborted = False\<rparr>],
             fresh := fresh s + 1\<rparr>))"
    using h by (auto simp: handles_fresh_def log_entry_def less_Suc_eq)
  show ?thesis
    unfolding scanLoop_def using h off on by auto
qed

lemma fresh_scanLoop_catch: "handles_fresh s \<Longrightarrow> handles_fresh (scanLoop_catch r e s)"
proof -
  assume h: "handles_fresh s"
  have a: "\<And>m. handles_fresh (log_entry ERROR m (s\<lparr>failures := failures s + 1\<rparr>))"
    using h by (simp add: handles_fresh_def log_entry_def)
  have b: "\<And>m u. handles_fresh u \<Longrightarrow> handles_fresh (log_entry WARN m (rotateProvider (u\<lparr>failures := 0\<rparr>)))"
    by (simp add: handles_fresh_def log_entry_def rotateProvider_def)
  show ?thesis
    unfolding scanLoop_catch_def Let_def
    using h a b by (simp add: fresh_scheduleNext)
qed

lemma fresh_scanLoop_success: "handles_fresh s \<Longrightarrow> handles_fresh (scanLoop_success r ts s)"
proof -
  assume h: "handles_fresh s"
  have a: "\<And>l m us. handles_fresh (dispatch us (rprovider r) (log_entry l m (s\<lparr>failures := 0, state := SCANNING\<rparr>)))"
    using h by (simp add: handles_fresh_def log_entry_def dispatch_def)
  show ?thesis
    unfolding scanLoop_success_def Let_def
    by (simp add: a fresh_scheduleNext)
qed

lemma fresh_scanLoop_resume: "handles_fresh s \<Longrightarrow> handles_fresh (scanLoop_resume cv r res s)"
  by (simp add: scanLoop_resume_def fresh_scanLoop_catch fresh_scanLoop_success split: sum.splits)

lemma fresh_setConfig: "handles_fresh s \<Longrightarrow> handles_fresh (setConfig p la lo rk s)"
proof -
  assume h: "handles_fresh s"
  have a: "\<And>i u. handles_fresh u \<Longrightarrow> handles_fresh (u\<lparr>currentProviderIndex := i, lat := la, lon := lo, rangeKm := rk\<rparr>)"
    by (simp add: handles_fresh_def)
  have b: "\<And>u n. handles_fresh u \<Longrightarrow> handles_fresh (u\<lparr>sessionId := n\<rparr>)"
    by (simp add: handles_fresh_def)
  show ?thesis
    unfolding setConfig_def Let_def restart_def
    using h by (simp add: a b fresh_log_entry fresh_scanLoop fresh_cleanup)
qed

lemma fresh_start: "handles_fresh s \<Longrightarrow> handles_fresh (start s)"
proof -
  assume h: "handles_fresh s"
  have "handles_fresh ((log_entry INFO ''System Start Sequence Initiated'' s)\<lparr>failures := 0, state := SCANNING\<rparr>)"
    using h by (simp add: handles_fresh_def log_entry_def)
  then show ?thesis
    unfolding start_def Let_def using h by (simp add: fresh_scanLoop)
qed

lemma fresh_stop: "handles_fresh s \<Longrightarrow> handles_fresh (stop s)"
proof -
  assume h: "handles_fresh s"
  have "handles_fresh ((log_entry INFO ''System Shutdown Sequence'' s)\<lparr>state := IDLE\<rparr>)"
    using h by (simp add: handles_fresh_def log_entry_def)
  then show ?thesis
    unfolding stop_def using h by (simp add: fresh_cleanup)
qed

lemma fresh_step: "handles_fresh s \<Longrightarrow> handles_fresh (step cv e s)"
proof (cases e)
  case (TimerFires h)
  assume f: "handles_fresh s"
  then have "handles_fresh (s\<lparr>timers := clearTimeout h (timers s)\<rparr>)"
    by (auto simp: handles_fresh_def clearTimeout_def)
  then show ?thesis using f TimerFires by (simp add: fresh_scanLoop split: option.splits)
next
  case (FetchSettles h res)
  assume f: "handles_fresh s"
  then have "handles_fresh (s\<lparr>inflight := filter (\<lambda>r. rid r \<noteq> h) (inflight s)\<rparr>)"
    by (auto simp: handles_fresh_def)
  then show ?thesis using f FetchSettles by (simp add: fresh_scanLoop_resume split: option.splits)
next
  case (Net b)
  assume "handles_fresh s"
  then show ?thesis using Net by (simp add: handles_fresh_def)
qed (simp_all add: fresh_setConfig fresh_start fresh_stop)

lemma fresh_run: "handles_fresh s \<Longrightarrow> handles_fresh (run cv evs s)"
  by (induction evs arbitrary: s) (simp_all add: fresh_step)

lemma fresh_reachable: "handles_fresh (run cv evs init)"
  by (rule fresh_run) (simp add: handles_fresh_def init_def)

section \<open>Failures and failover\<close>

lemma catch_below_threshold:
  assumes "rsession r = sessionId s" and "state s \<noteq> IDLE"
    and "err_name e \<noteq> ''AbortError''" and "failures s = 0"
  shows "scanLoop_catch r e s =
           s\<lparr>failures := 1,
             logs := logs s @
               [\<lparr>level = ERROR, message = ''Scan Failed ('' @ show_provider (rprovider r) @ '')''\<rparr>],
             timer := Some (fresh s),
             timers := timers s @ [\<lparr>tid = fresh s, delay = 3000, tsession = sessionId s\<rparr>],
             fresh := fresh s + 1\<rparr>"
  using assms
  by (simp add: scanLoop_catch_def Let_def log_entry_def scheduleNext_def
      MAX_FAILURES_PER_PROVIDER_def)

lemma catch_at_threshold:
  assumes "rsession r = sessionId s" and "state s \<noteq> IDLE"
    and "err_name e \<noteq> ''AbortError''" and "failures s = 1"
  shows "scanLoop_catch r e s =
           s\<lparr>failures := 0,
             logs := logs s @
               [\<lparr>level = ERROR, message = ''Scan Failed ('' @ show_provider (rprovider r) @ '')''\<rparr>,
                \<lparr>level = WARN, message = ''Rerouting Data Link''\<rparr>],
             currentProviderIndex := (currentProviderIndex s + 1) mod 3,
             timer := Some (fresh s),
             timers := timers s @ [\<lparr>tid = fresh s, delay = 1000, tsession = sessionId s\<rparr>],
             fresh := fresh s + 1\<rparr>"
  using assms
  by (simp add: scanLoop_catch_def Let_def log_entry_def scheduleNext_def rotateProvider_def
      MAX_FAILURES_PER_PROVIDER_def length_PROVIDER_ORDER)

lemma catch_any_failure:
  assumes "err_name e \<noteq> ''AbortError''" and "err_name e' \<noteq> ''AbortError''"
  shows "scanLoop_catch r e s = scanLoop_catch r e' s"
  using assms by (simp add: scanLoop_catch_def)

lemma catch_effect:
  assumes "rsession r = sessionId s" and "err_name e \<noteq> ''AbortError''"
  shows "failures (scanLoop_catch r e s) = (if failures s + 1 \<ge> 2 then 0 else failures s + 1) \<and>
         currentProviderIndex (scanLoop_catch r e s) =
           (if failures s + 1 \<ge> 2 then (currentProviderIndex s + 1) mod 3
            else currentProviderIndex s) \<and>
         logs (scanLoop_catch r e s) =
           logs s @ \<lparr>level = ERROR, message = ''Scan Failed ('' @ show_provider (rprovider r) @ '')''\<rparr> #
             (if failures s + 1 \<ge> 2 then [\<lparr>level = WARN, message = ''Rerouting Data Link''\<rparr>] else []) \<and>
         updates (scanLoop_catch r e s) = updates s"
  using assms
  by (simp add: scanLoop_catch_def Let_def log_entry_def scheduleNext_def rotateProvider_def
      MAX_FAILURES_PER_PROVIDER_def length_PROVIDER_ORDER)

text \<open>
  C3 fails on the code. \<^verbatim>\<open>setConfig\<close> assigns the provider cursor and leaves the
  failure counter as it is, unlike \<^verbatim>\<open>start\<close>, the success path and the rotation, which
  reset it. After one failure of ADSB_LOL the user selects OPENSKY at the same position
  (\<^verbatim>\<open>App\<close> calls \<^verbatim>\<open>setConfig\<close> and then \<^verbatim>\<open>start\<close>, which returns at once); the retry
  timer fires into a request to OPENSKY with the counter at 1, and the first failure of
  OPENSKY resets the counter to 0, moves the cursor from OPENSKY on to ADSB_LOL and sets
  the retry timer to 1000 ms, where a single failure of the active provider should
  leave the counter at 1, the provider unchanged and the delay at 3000 ms.
\<close>

theorem failures_carried_across_providers:
  "failures (run cv
     [Start, FetchSettles 1 transport_error,
      SetConfig ''OPENSKY'' (Num 0) (Num 0) (Num 50), Start, TimerFires 2] init) = 1 \<and>
   currentProviderIndex (run cv
     [Start, FetchSettles 1 transport_error,
      SetConfig ''OPENSKY'' (Num 0) (Num 0) (Num 50), Start, TimerFires 2] init) = 2 \<and>
   inflight (run cv
     [Start, FetchSettles 1 transport_error,
      SetConfig ''OPENSKY'' (Num 0) (Num 0) (Num 50), Start, TimerFires 2] init) =
     [\<lparr>rid = 3, rsession = 0, rprovider = Some ''OPENSKY'', aborted = False\<rparr>] \<and>
   failures (run cv
     [Start, FetchSettles 1 transport_error,
      SetConfig ''OPENSKY'' (Num 0) (Num 0) (Num 50), Start, TimerFires 2,
      FetchSettles 3 transport_error] init) = 0 \<and>
   currentProviderIndex (run cv
     [Start, FetchSettles 1 transport_error,
      SetConfig ''OPENSKY'' (Num 0) (Num 0) (Num 50), Start, TimerFires 2,
      FetchSettles 3 transport_error] init) = 0 \<and>
   timers (run cv
     [Start, FetchSettles 1 transport_error,
      SetConfig ''OPENSKY'' (Num 0) (Num 0) (Num 50), Start, TimerFires 2,
      FetchSettles 3 transport_error] init) = [\<lparr>tid = 4, delay = 1000, tsession = 0\<rparr>] \<and>
   logs (run cv
     [Start, FetchSettles 1 transport_error,
      SetConfig ''OPENSKY'' (Num 0) (Num 0) (Num 50), Start, TimerFires 2,
      FetchSettles 3 transport_error] init) =
     [\<lparr>level = INFO, message = ''System Start Sequence Initiated''\<rparr>,
      \<lparr>level = INFO, message = ''uplinking...''\<rparr>,
      \<lparr>level = ERROR, message = ''Scan Failed (ADSB_LOL)''\<rparr>,
      \<lparr>level = INFO, message = ''uplinking...''\<rparr>,
      \<lparr>level = ERROR, message = ''Scan Failed (OPENSKY)''\<rparr>,
      \<lparr>level = WARN, message = ''Rerouting Data Link''\<rparr>]"
  by (simp add: ctl_defs fetch_defs transport_error_def)

text \<open>
  With the counter at 0 the two tiers are as designed. In any state that a run from the
  initial state reaches, let an activation under the current session be suspended while
  the controller is active, the network reachable and the failure counter 0. When that
  activation fails with an error other than an AbortError, the counter is 1, the
  provider cursor is unchanged and the retry timer has a delay of 3000 ms. When that
  timer fires and the request it issues fails in the same way, the counter is back to 0,
  the cursor has advanced by one position in \<^verbatim>\<open>PROVIDER_ORDER\<close>, wrapping at its end,
  and the retry timer has a delay of 1000 ms.
\<close>

lemma failover_from_zero:
  assumes reach: "s = run cv evs init"
    and r: "find (\<lambda>r. rid r = h) (inflight s) = Some r"
    and live: "rsession r = sessionId s"
    and active: "state s \<noteq> IDLE"
    and net: "online s"
    and zero: "failures s = 0"
    and f1: "settle cv (rprovider r) (lat s) (lon s) res1 = Inl e1"
    and n1: "err_name e1 \<noteq> ''AbortError''"
    and f2: "settle cv (provider_at (currentProviderIndex s)) (lat s) (lon s) res2 = Inl e2"
    and n2: "err_name e2 \<noteq> ''AbortError''"
  shows "failures (run cv [FetchSettles h res1] s) = 1 \<and>
         currentProviderIndex (run cv [FetchSettles h res1] s) = currentProviderIndex s \<and>
         timers (run cv [FetchSettles h res1] s) =
           timers s @ [\<lparr>tid = fresh s, delay = 3000, tsession = sessionId s\<rparr>] \<and>
         failures (run cv [FetchSettles h res1, TimerFires (fresh s),
                           FetchSettles (fresh s + 1) res2] s) = 0 \<and>
         currentProviderIndex (run cv [FetchSettles h res1, TimerFires (fresh s),
                           FetchSettles (fresh s + 1) res2] s) =
           (currentProviderIndex s + 1) mod length PROVIDER_ORDER \<and>
         timers (run cv [FetchSettles h res1, TimerFires (fresh s),
                           FetchSettles (fresh s + 1) res2] s) =
           timers s @ [\<lparr>tid = fresh s + 2, delay = 1000, tsession = sessionId s\<rparr>]"
proof -
  have fr: "handles_fresh s"
    unfolding reach by (rule fresh_reachable)
  define rest where "rest = filter (\<lambda>q. rid q \<noteq> h) (inflight s)"
  define s0 where "s0 = s\<lparr>inflight := rest\<rparr>"
  define s1 where "s1 = step cv (FetchSettles h res1) s"
  have s1_catch: "s1 = scanLoop_catch r e1 s0"
    using r live f1 by (simp add: s1_def s0_def rest_def scanLoop_resume_settle)
  have s1_eq: "s1 = s0\<lparr>failures := 1,
             logs := logs s0 @
               [\<lparr>level = ERROR, message = ''Scan Failed ('' @ show_provider (rprovider r) @ '')''\<rparr>],
             timer := Some (fresh s0),
             timers := timers s0 @ [\<lparr>tid = fresh s0, delay = 3000, tsession = sessionId s0\<rparr>],
             fresh := fresh s0 + 1\<rparr>"
    unfolding s1_catch
    by (rule catch_below_threshold) (use live active n1 zero in \<open>simp_all add: s0_def\<close>)
  have t_old: "\<forall>t \<in> set (timers s). tid t \<noteq> fresh s"
    using fr by (auto simp: handles_fresh_def)
  have r_old: "\<forall>q \<in> set rest. rid q \<noteq> fresh s + 1"
    using fr by (auto simp: handles_fresh_def rest_def)
  define t1 where "t1 = \<lparr>tid = fresh s, delay = 3000, tsession = sessionId s\<rparr>"
  have timers1: "timers s1 = timers s @ [t1]"
    by (simp add: s1_eq s0_def t1_def)
  have find1: "find (\<lambda>t. tid t = fresh s) (timers s1) = Some t1"
    unfolding timers1 by (rule find_last_fresh) (use t_old in \<open>simp_all add: t1_def\<close>)
  have clear1: "clearTimeout (fresh s) (timers s1) = timers s"
    unfolding timers1 clearTimeout_def
    by (rule filter_last_fresh) (use t_old in \<open>simp_all add: t1_def\<close>)
  define s1' where "s1' = s1\<lparr>timers := timers s\<rparr>"
  define s2 where "s2 = step cv (TimerFires (fresh s)) s1"
  have s2_loop: "s2 = scanLoop (sessionId s) s1'"
    using find1 clear1 by (simp add: s2_def s1'_def t1_def)
  define r2 where "r2 = \<lparr>rid = fresh s + 1, rsession = sessionId s,
                 rprovider = provider_at (currentProviderIndex s), aborted = False\<rparr>"
  have s2_eq: "s2 = s1'\<lparr>abortController := Some (fresh s1'),
             inflight := inflight s1' @
               [\<lparr>rid = fresh s1', rsession = sessionId s1',
                 rprovider = provider_at (currentProviderIndex s1'), aborted = False\<rparr>],
             fresh := fresh s1' + 1,
             logs := logs s1' @ [\<lparr>level = INFO, message = ''uplinking...''\<rparr>]\<rparr>"
    unfolding s2_loop
    by (rule scanLoop_online) (use active net in \<open>simp_all add: s1'_def s1_eq s0_def\<close>)
  have inflight2: "inflight s2 = rest @ [r2]"
    by (simp add: s2_eq s1'_def s1_eq s0_def r2_def)
  have find2: "find (\<lambda>q. rid q = fresh s + 1) (inflight s2) = Some r2"
    unfolding inflight2 by (rule find_last_fresh) (use r_old in \<open>simp_all add: r2_def\<close>)
  have filter2: "filter (\<lambda>q. rid q \<noteq> fresh s + 1) (inflight s2) = rest"
    unfolding inflight2 by (rule filter_last_fresh) (use r_old in \<open>simp_all add: r2_def\<close>)
  define s2' where "s2' = s2\<lparr>inflight := rest\<rparr>"
  define s3 where "s3 = step cv (FetchSettles (fresh s + 1) res2) s2"
  have facts2: "sessionId s2' = sessionId s" "lat s2' = lat s" "lon s2' = lon s"
    "state s2' \<noteq> IDLE" "failures s2' = 1" "timers s2' = timers s"
    "currentProviderIndex s2' = currentProviderIndex s" "fresh s2' = fresh s + 2"
    using active by (simp_all add: s2'_def s2_eq s1'_def s1_eq s0_def)
  have s3_catch: "s3 = scanLoop_catch r2 e2 s2'"
    using find2 filter2 f2 facts2
    by (simp add: s3_def s2'_def [symmetric] scanLoop_resume_settle r2_def)
  have s3_eq: "s3 = s2'\<lparr>failures := 0,
             logs := logs s2' @
               [\<lparr>level = ERROR, message = ''Scan Failed ('' @ show_provider (rprovider r2) @ '')''\<rparr>,
                \<lparr>level = WARN, message = ''Rerouting Data Link''\<rparr>],
             currentProviderIndex := (currentProviderIndex s2' + 1) mod 3,
             timer := Some (fresh s2'),
             timers := timers s2' @ [\<lparr>tid = fresh s2', delay = 1000, tsession = sessionId s2'\<rparr>],
             fresh := fresh s2' + 1\<rparr>"
    unfolding s3_catch
    by (rule catch_at_threshold) (use facts2 n2 in \<open>simp_all add: r2_def\<close>)
  have run1: "run cv [FetchSettles h res1] s = s1"
    by (simp add: s1_def)
  have run3: "run cv [FetchSettles h res1, TimerFires (fresh s), FetchSettles (fresh s + 1) res2] s = s3"
    by (simp add: s1_def s2_def s3_def)
  have a: "failures s1 = 1" "currentProviderIndex s1 = currentProviderIndex s"
    by (simp_all add: s1_eq s0_def)
  have b: "failures s3 = 0"
    "currentProviderIndex s3 = (currentProviderIndex s + 1) mod length PROVIDER_ORDER"
    "timers s3 = timers s @ [\<lparr>tid = fresh s + 2, delay = 1000, tsession = sessionId s\<rparr>]"
    using facts2 by (simp_all add: s3_eq length_PROVIDER_ORDER)
  show ?thesis
    unfolding run1 run3 using a b timers1 by (simp add: t1_def)
qed

lemma failover_from_zero_example:
  "failures (run no_conversion
     [SetConfig ''OPENSKY'' (Num 0) (Num 0) (Num 50), Start, FetchSettles 1 transport_error]
     init) = 1 \<and>
   currentProviderIndex (run no_conversion
     [SetConfig ''OPENSKY'' (Num 0) (Num 0) (Num 50), Start, FetchSettles 1 transport_error]
     init) = 2 \<and>
   timers (run no_conversion
     [SetConfig ''OPENSKY'' (Num 0) (Num 0) (Num 50), Start, FetchSettles 1 transport_error]
     init) = [\<lparr>tid = 2, delay = 3000, tsession = 0\<rparr>] \<and>
   failures (run no_conversion
     [SetConfig ''OPENSKY'' (Num 0) (Num 0) (Num 50), Start, FetchSettles 1 transport_error,
      TimerFires 2, FetchSettles 3 transport_error] init) = 0 \<and>
   currentProviderIndex (run no_conversion
     [SetConfig ''OPENSKY'' (Num 0) (Num 0) (Num 50), Start, FetchSettles 1 transport_error,
      TimerFires 2, FetchSettles 3 transport_error] init) = 0 \<and>
   timers (run no_conversion
     [SetConfig ''OPENSKY'' (Num 0) (Num 0) (Num 50), Start, FetchSettles 1 transport_error,
      TimerFires 2, FetchSettles 3 transport_error] init) = [\<lparr>tid = 4, delay = 1000, tsession = 0\<rparr>]"
proof -
  define s where "s = run no_conversion [SetConfig ''OPENSKY'' (Num 0) (Num 0) (Num 50), Start] init"
  have s: "s = \<lparr>state = SCANNING, timer = None, abortController = Some 1, failures = 0,
       currentProviderIndex = 2, lat = Num 0, lon = Num 0, rangeKm = Num 50,
       sessionId = 0, online = True, timers = [],
       inflight = [\<lparr>rid = 1, rsession = 0, rprovider = Some ''OPENSKY'', aborted = False\<rparr>],
       fresh = 2,
       logs = [\<lparr>level = INFO, message = ''System Start Sequence Initiated''\<rparr>,
               \<lparr>level = INFO, message = ''uplinking...''\<rparr>],
       updates = []\<rparr>"
    by (simp add: s_def ctl_defs)
  have split1: "run no_conversion
     [SetConfig ''OPENSKY'' (Num 0) (Num 0) (Num 50), Start, FetchSettles 1 transport_error] init =
     run no_conversion [FetchSettles 1 transport_error] s"
    by (simp add: s_def)
  have split3: "run no_conversion
     [SetConfig ''OPENSKY'' (Num 0) (Num 0) (Num 50), Start, FetchSettles 1 transport_error,
      TimerFires 2, FetchSettles 3 transport_error] init =
     run no_conversion [FetchSettles 1 transport_error, TimerFires 2, FetchSettles 3 transport_error] s"
    by (simp add: s_def)
  have vals: "fresh s = 2" "currentProviderIndex s = 2" "timers s = []" "sessionId s = 0"
    by (simp_all add: s)
  have r: "find (\<lambda>r. rid r = 1) (inflight s) =
            Some \<lparr>rid = 1, rsession = 0, rprovider = Some ''OPENSKY'', aborted = False\<rparr>"
    by (simp add: s)
  have live: "rsession \<lparr>rid = 1, rsession = 0, rprovider = Some ''OPENSKY'', aborted = False\<rparr> =
              sessionId s"
    by (simp add: s)
  have active: "state s \<noteq> IDLE" and net: "online s" and zero: "failures s = 0"
    by (simp_all add: s)
  have n: "err_name (JsError ''Error'' ''Network Error (CORS/Connection Refused)'') \<noteq> ''AbortError''"
    by simp
  note two = failover_from_zero
    [OF s_def r live active net zero settle_transport_error n settle_transport_error n]
  show ?thesis
    unfolding split1 split3 using two [unfolded vals]
    by (simp del: run.simps add: length_PROVIDER_ORDER)
qed

section \<open>Reconfiguration\<close>

lemma strict_neq_iff: "\<not> strict_neq a b \<longleftrightarrow> (\<exists>x. a = Num x \<and> b = Num x)"
  by (cases a; cases b) auto




lemma setConfig_same:
  assumes "\<not> changed s la lo rk"
  shows "setConfig p la lo rk s = s\<lparr>currentProviderIndex := cursor_for p\<rparr>"
proof -
  from assms have "la = lat s" "lo = lon s" "rk = rangeKm s"
    by (auto simp: changed_def strict_neq_iff)
  with assms show ?thesis
    by (simp add: setConfig_def changed_def cursor_for_def Let_def)
qed

lemma setConfig_changed_idle:
  assumes "changed s la lo rk" and "state s \<noteq> SCANNING"
  shows "setConfig p la lo rk s =
           s\<lparr>currentProviderIndex := cursor_for p, lat := la, lon := lo, rangeKm := rk,
             logs := logs s @ [\<lparr>level = INFO, message = ''Configuration Updated''\<rparr>],
             sessionId := next_session (sessionId s)\<rparr>"
  using assms by (simp add: setConfig_def changed_def cursor_for_def Let_def log_entry_def)

lemma setConfig_changed_scanning:
  assumes "changed s la lo rk" and "state s = SCANNING"
  shows "setConfig p la lo rk s =
           scanLoop (next_session (sessionId s))
             (s\<lparr>currentProviderIndex := cursor_for p, lat := la, lon := lo, rangeKm := rk,
                logs := logs s @ [\<lparr>level = INFO, message = ''Configuration Updated''\<rparr>],
                sessionId := next_session (sessionId s), timer := None, abortController := None,
                timers := clear_opt (timer s) (timers s),
                inflight := abort_opt (abortController s) (inflight s)\<rparr>)"
  using assms
  by (simp add: setConfig_def changed_def cursor_for_def Let_def log_entry_def restart_def
      cleanup_eq)

lemma setConfig_changed_online:
  assumes "changed s la lo rk" and "state s = SCANNING" and "online s"
  shows "setConfig p la lo rk s =
           s\<lparr>currentProviderIndex := cursor_for p, lat := la, lon := lo, rangeKm := rk,
             sessionId := next_session (sessionId s), timer := None,
             abortController := Some (fresh s),
             timers := clear_opt (timer s) (timers s),
             inflight := abort_opt (abortController s) (inflight s) @
               [\<lparr>rid = fresh s, rsession = next_session (sessionId s),
                 rprovider = provider_at (cursor_for p), aborted = False\<rparr>],
             fresh := fresh s + 1,
             logs := logs s @ [\<lparr>level = INFO, message = ''Configuration Updated''\<rparr>,
                               \<lparr>level = INFO, message = ''uplinking...''\<rparr>]\<rparr>"
  using assms by (simp add: setConfig_changed_scanning scanLoop_online)

lemma setConfig_changed_offline:
  assumes "changed s la lo rk" and "state s = SCANNING" and "\<not> online s"
  shows "setConfig p la lo rk s =
           s\<lparr>currentProviderIndex := cursor_for p, lat := la, lon := lo, rangeKm := rk,
             sessionId := next_session (sessionId s), state := FAULT,
             timer := Some (fresh s), abortController := None,
             timers := clear_opt (timer s) (timers s) @
               [\<lparr>tid = fresh s, delay = 5000, tsession = next_session (sessionId s)\<rparr>],
             inflight := abort_opt (abortController s) (inflight s),
             fresh := fresh s + 1,
             logs := logs s @ [\<lparr>level = INFO, message = ''Configuration Updated''\<rparr>,
                               \<lparr>level = ERROR, message = ''Network Link Offline''\<rparr>]\<rparr>"
  using assms by (simp add: setConfig_changed_scanning scanLoop_offline)

lemma setConfig_changed_session:
  assumes "changed s la lo rk"
  shows "sessionId (setConfig p la lo rk s) = next_session (sessionId s)"
  using assms
  by (cases "state s = SCANNING"; cases "online s")
     (simp_all add: setConfig_changed_idle setConfig_changed_online setConfig_changed_offline)






section \<open>The session token\<close>

lemma session_log_entry: "sessionId (log_entry l m s) = sessionId s"
  by (simp add: log_entry_def)

lemma session_scheduleNext: "sessionId (scheduleNext d a s) = sessionId s"
  by (simp add: scheduleNext_def)

lemma session_cleanup: "sessionId (cleanup s) = sessionId s"
  by (simp add: cleanup_eq)

lemma session_scanLoop: "sessionId (scanLoop a s) = sessionId s"
  by (simp add: scanLoop_def session_scheduleNext session_log_entry)

lemma session_scanLoop_catch: "sessionId (scanLoop_catch r e s) = sessionId s"
  by (simp add: scanLoop_catch_def Let_def session_scheduleNext session_log_entry
      rotateProvider_def)

lemma session_scanLoop_success: "sessionId (scanLoop_success r ts s) = sessionId s"
  by (simp add: scanLoop_success_def Let_def session_scheduleNext session_log_entry dispatch_def)

lemma session_scanLoop_resume: "sessionId (scanLoop_resume cv r res s) = sessionId s"
  by (simp add: scanLoop_resume_def session_scanLoop_catch session_scanLoop_success
      split: sum.splits)

lemma session_start: "sessionId (start s) = sessionId s"
  by (simp add: start_def Let_def session_scanLoop session_log_entry)

lemma session_stop: "sessionId (stop s) = sessionId s"
  by (simp add: stop_def session_cleanup session_log_entry)

lemma session_setConfig:
  "sessionId (setConfig p la lo rk s) =
     (if changed s la lo rk then next_session (sessionId s) else sessionId s)"
  by (simp add: setConfig_changed_session setConfig_same)

lemma session_step:
  "sessionId s \<le> 9007199254740992 \<Longrightarrow> sessionId (step cv e s) \<le> 9007199254740992"
  by (cases e)
     (simp_all add: session_setConfig session_start session_stop session_scanLoop
        session_scanLoop_resume next_session_def split: option.splits)

text \<open>The token never exceeds \<open>2\<^sup>5\<^sup>3\<close>, the last value that the increment can reach.\<close>

lemma session_bounded: "sessionId (run cv evs init) \<le> 9007199254740992"
proof -
  have "sessionId s \<le> 9007199254740992 \<Longrightarrow> sessionId (run cv evs s) \<le> 9007199254740992" for s
    by (induction evs arbitrary: s) (simp_all add: session_step)
  then show ?thesis by (simp add: init_def)
qed

section \<open>Malformed responses\<close>

text \<open>
  C6, as the specification states it, fails: after one transport error, a response of
  ADSB_LOL whose body is the JSON object without the \<^verbatim>\<open>ac\<close> field resets the failure
  counter from 1 to 0, leaves the provider where it is, logs no error and hands an empty
  snapshot to the update callback.
\<close>

theorem missing_field_counterexample:
  "failures (run no_conversion [Start, FetchSettles 1 transport_error, TimerFires 2] init) = 1 \<and>
   failures (run no_conversion
     [Start, FetchSettles 1 transport_error, TimerFires 2, FetchSettles 3 empty_object_response]
     init) = 0 \<and>
   currentProviderIndex (run no_conversion
     [Start, FetchSettles 1 transport_error, TimerFires 2, FetchSettles 3 empty_object_response]
     init) = 0 \<and>
   updates (run no_conversion
     [Start, FetchSettles 1 transport_error, TimerFires 2, FetchSettles 3 empty_object_response]
     init) = [\<lparr>u_targets = [], u_state = SCANNING, u_provider = Some ''ADSB_LOL''\<rparr>] \<and>
   last (logs (run no_conversion
     [Start, FetchSettles 1 transport_error, TimerFires 2, FetchSettles 3 empty_object_response]
     init)) = \<lparr>level = INFO, message = ''Scan Complete - Sector Clear''\<rparr>"
  by (simp add: ctl_defs fetch_defs transport_error_def empty_object_response_def)

text \<open>
  C6, amended. For an activation under the current session, a body that fails JSON
  parsing has the effect of a transport error: the same resulting state, with the
  failure counter incremented (and reset to 0 at the threshold of 2), an ERROR entry
  logged and no snapshot emitted. A parsed JSON object that has no \<^verbatim>\<open>ac\<close> field (for
  ADSB_LOL and AIRPLANES_LIVE) or no \<^verbatim>\<open>states\<close> field (for OPENSKY) is a success with
  no targets: the failure counter is 0 and the empty snapshot is emitted.
\<close>

theorem malformed_body_counted:
  assumes r: "find (\<lambda>r. rid r = h) (inflight s) = Some r"
    and live: "rsession r = sessionId s"
  shows "step cv (FetchSettles h (parse_failure m)) s = step cv (FetchSettles h transport_error) s \<and>
         failures (step cv (FetchSettles h (parse_failure m)) s) =
           (if failures s + 1 \<ge> 2 then 0 else failures s + 1) \<and>
         logs (step cv (FetchSettles h (parse_failure m)) s) =
           logs s @ \<lparr>level = ERROR, message = ''Scan Failed ('' @ show_provider (rprovider r) @ '')''\<rparr> #
             (if failures s + 1 \<ge> 2 then [\<lparr>level = WARN, message = ''Rerouting Data Link''\<rparr>] else []) \<and>
         updates (step cv (FetchSettles h (parse_failure m)) s) = updates s \<and>
         ((rprovider r = Some ''ADSB_LOL'' \<or> rprovider r = Some ''AIRPLANES_LIVE'') \<and>
            map_of (rev kvs) ''ac'' = None \<or>
          rprovider r = Some ''OPENSKY'' \<and> map_of (rev kvs) ''states'' = None \<longrightarrow>
            failures (step cv (FetchSettles h (Response True (Json (JObj kvs)))) s) = 0 \<and>
            updates (step cv (FetchSettles h (Response True (Json (JObj kvs)))) s) =
              updates s @ [\<lparr>u_targets = [], u_state = SCANNING, u_provider = rprovider r\<rparr>])"
proof -
  define s0 where "s0 = s\<lparr>inflight := filter (\<lambda>r. rid r \<noteq> h) (inflight s)\<rparr>"
  have live0: "rsession r = sessionId s0" using live by (simp add: s0_def)
  obtain e where e: "settle cv (rprovider r) (lat s0) (lon s0) (parse_failure m) = Inl e"
    and ne: "err_name e \<noteq> ''AbortError''"
    using settle_parse_failure by blast
  have p: "step cv (FetchSettles h (parse_failure m)) s = scanLoop_catch r e s0"
    using r live0 e by (simp add: s0_def [symmetric] scanLoop_resume_settle)
  have t: "step cv (FetchSettles h transport_error) s =
             scanLoop_catch r (JsError ''Error'' ''Network Error (CORS/Connection Refused)'') s0"
    using r live0 by (simp add: s0_def [symmetric] scanLoop_resume_settle settle_transport_error)
  have same: "scanLoop_catch r e s0 =
              scanLoop_catch r (JsError ''Error'' ''Network Error (CORS/Connection Refused)'') s0"
    by (rule catch_any_failure) (use ne in simp_all)
  have eff: "failures (scanLoop_catch r e s0) =
               (if failures s + 1 \<ge> 2 then 0 else failures s + 1)"
    "logs (scanLoop_catch r e s0) =
           logs s @ \<lparr>level = ERROR, message = ''Scan Failed ('' @ show_provider (rprovider r) @ '')''\<rparr> #
             (if failures s + 1 \<ge> 2 then [\<lparr>level = WARN, message = ''Rerouting Data Link''\<rparr>] else [])"
    "updates (scanLoop_catch r e s0) = updates s"
    using catch_effect [OF live0 ne] by (simp_all add: s0_def)
  have miss: "failures (step cv (FetchSettles h (Response True (Json (JObj kvs)))) s) = 0 \<and>
            updates (step cv (FetchSettles h (Response True (Json (JObj kvs)))) s) =
              updates s @ [\<lparr>u_targets = [], u_state = SCANNING, u_provider = rprovider r\<rparr>]"
    if "(rprovider r = Some ''ADSB_LOL'' \<or> rprovider r = Some ''AIRPLANES_LIVE'') \<and>
            map_of (rev kvs) ''ac'' = None \<or>
          rprovider r = Some ''OPENSKY'' \<and> map_of (rev kvs) ''states'' = None"
  proof -
    from that have "settle cv (rprovider r) (lat s) (lon s) (Response True (Json (JObj kvs))) = Inr []"
      using settle_missing_ac [of "rprovider r" kvs cv "lat s" "lon s"]
        settle_missing_states [of kvs cv "lat s" "lon s"] by auto
    then show ?thesis
      using r live
      by (simp add: scanLoop_resume_settle scanLoop_success_def scheduleNext_def log_entry_def
          dispatch_def Let_def)
  qed
  show ?thesis
    unfolding p t using same eff miss by simp
qed

theorem malformed_body_counted_witness:
  "failures (run no_conversion [Start, FetchSettles 1 (parse_failure ''Unexpected token'')] init) = 1 \<and>
   run no_conversion [Start, FetchSettles 1 (parse_failure ''Unexpected token'')] init =
   run no_conversion [Start, FetchSettles 1 transport_error] init \<and>
   updates (run no_conversion [Start, FetchSettles 1 (parse_failure ''Unexpected token'')] init) = [] \<and>
   updates (run no_conversion [Start, FetchSettles 1 (Response True (Json (JObj [])))] init) =
     [\<lparr>u_targets = [], u_state = SCANNING, u_provider = Some ''ADSB_LOL''\<rparr>]"
  using malformed_body_counted
    [of 1 "run no_conversion [Start] init"
        "\<lparr>rid = 1, rsession = 0, rprovider = Some ''ADSB_LOL'', aborted = False\<rparr>"
        no_conversion "''Unexpected token''" "[]"]
  by (simp add: ctl_defs fetch_defs parse_failure_def transport_error_def)

section \<open>The machine state\<close>

lemma assigned_simps: "assigned IDLE" "assigned SCANNING" "assigned FAULT" "\<not> assigned RECOVERY"
  by (simp_all add: assigned_def)

lemma state_log_entry: "state (log_entry l m s) = state s"
  by (simp add: log_entry_def)

lemma state_scheduleNext: "state (scheduleNext d a s) = state s"
  by (simp add: scheduleNext_def)

lemma state_cleanup: "state (cleanup s) = state s"
  by (simp add: cleanup_eq)

lemma state_scanLoop: "assigned (state s) \<Longrightarrow> assigned (state (scanLoop a s))"
  by (simp add: scanLoop_def assigned_simps state_scheduleNext state_log_entry)

lemma state_scanLoop_catch: "state (scanLoop_catch r e s) = state s"
  by (simp add: scanLoop_catch_def Let_def state_scheduleNext state_log_entry rotateProvider_def)

lemma state_scanLoop_success: "state (scanLoop_success r ts s) = SCANNING"
  by (simp add: scanLoop_success_def Let_def state_scheduleNext state_log_entry dispatch_def)

lemma state_scanLoop_resume:
  "assigned (state s) \<Longrightarrow> assigned (state (scanLoop_resume cv r res s))"
  by (simp add: scanLoop_resume_def state_scanLoop_catch state_scanLoop_success assigned_simps
      split: sum.splits)

lemma state_setConfig: "assigned (state s) \<Longrightarrow> assigned (state (setConfig p la lo rk s))"
  by (simp add: setConfig_def Let_def restart_def state_log_entry state_scanLoop state_cleanup
      assigned_simps)

lemma state_start: "assigned (state s) \<Longrightarrow> assigned (state (start s))"
  by (simp add: start_def Let_def state_scanLoop assigned_simps)

lemma state_stop: "assigned (state s) \<Longrightarrow> assigned (state (stop s))"
  by (simp add: stop_def state_cleanup assigned_simps)

lemma state_step: "assigned (state s) \<Longrightarrow> assigned (state (step cv e s))"
  by (cases e)
     (simp_all add: state_setConfig state_start state_stop state_scanLoop state_scanLoop_resume
        split: option.splits)

lemma state_run: "assigned (state s) \<Longrightarrow> assigned (state (run cv evs s))"
  by (induction evs arbitrary: s) (simp_all add: state_step)

text \<open>
  C9. No operation assigns RECOVERY: after any sequence of calls of \<^verbatim>\<open>setConfig\<close>,
  \<^verbatim>\<open>start\<close> and \<^verbatim>\<open>stop\<close>, changes of reachability, timers firing and requests settling
  with any answer, from the initial state, the state is IDLE, SCANNING or FAULT.
\<close>

theorem recovery_never_assigned:
  "state (run cv evs init) \<noteq> RECOVERY \<and>
   (state (run cv evs init) = IDLE \<or> state (run cv evs init) = SCANNING \<or>
    state (run cv evs init) = FAULT)"
proof -
  have "assigned (state init)" by (simp add: assigned_simps init_def)
  then have "assigned (state (run cv evs init))" by (rule state_run)
  then show ?thesis by (auto simp: assigned_def)
qed

theorem recovery_never_assigned_witness:
  "state (run no_conversion [Net False, Start] init) = FAULT \<and>
   state (run no_conversion [Net False, Start] init) \<noteq> RECOVERY"
  using recovery_never_assigned [of no_conversion "[Net False, Start]"]
  by (simp add: ctl_defs)

section \<open>The provider cursor\<close>

lemma indexOf_range: "- 1 \<le> indexOf xs v \<and> indexOf xs v < int (length xs)"
  by (induction xs) (auto simp: Let_def)

lemma indexOf_absent: "v \<notin> set xs \<Longrightarrow> indexOf xs v = - 1"
  by (induction xs) (auto simp: Let_def)

lemma cursor_log_entry: "currentProviderIndex (log_entry l m s) = currentProviderIndex s"
  by (simp add: log_entry_def)

lemma cursor_scheduleNext: "currentProviderIndex (scheduleNext d a s) = currentProviderIndex s"
  by (simp add: scheduleNext_def)

lemma cursor_cleanup: "currentProviderIndex (cleanup s) = currentProviderIndex s"
  by (simp add: cleanup_eq)

lemma cursor_scanLoop: "currentProviderIndex (scanLoop a s) = currentProviderIndex s"
  by (simp add: scanLoop_def cursor_scheduleNext cursor_log_entry)

lemma cursor_restart: "currentProviderIndex (restart s) = currentProviderIndex s"
  by (simp add: restart_def Let_def cursor_scanLoop cursor_cleanup)

lemma cursor_setConfig:
  "currentProviderIndex (setConfig p la lo rk s) = cursor_for p"
  by (simp add: setConfig_def Let_def cursor_restart cursor_log_entry cursor_for_def)

lemma cursor_start: "currentProviderIndex (start s) = currentProviderIndex s"
  by (simp add: start_def Let_def cursor_scanLoop cursor_log_entry)

lemma cursor_stop: "currentProviderIndex (stop s) = currentProviderIndex s"
  by (simp add: stop_def cursor_cleanup cursor_log_entry)

lemma cursor_scanLoop_success:
  "currentProviderIndex (scanLoop_success r ts s) = currentProviderIndex s"
  by (simp add: scanLoop_success_def Let_def cursor_scheduleNext cursor_log_entry dispatch_def)

lemma cursor_scanLoop_catch:
  "currentProviderIndex s < length PROVIDER_ORDER \<Longrightarrow>
   currentProviderIndex (scanLoop_catch r e s) < length PROVIDER_ORDER"
  by (simp add: scanLoop_catch_def Let_def cursor_scheduleNext cursor_log_entry rotateProvider_def
      length_PROVIDER_ORDER)

lemma cursor_scanLoop_resume:
  "currentProviderIndex s < length PROVIDER_ORDER \<Longrightarrow>
   currentProviderIndex (scanLoop_resume cv r res s) < length PROVIDER_ORDER"
  by (simp add: scanLoop_resume_def cursor_scanLoop_catch cursor_scanLoop_success
      split: sum.splits)

lemma cursor_step:
  assumes "currentProviderIndex s < length PROVIDER_ORDER"
  shows "currentProviderIndex (step cv e s) < length PROVIDER_ORDER"
proof (cases e)
  case (SetConfig p la lo rk)
  have "indexOf PROVIDER_ORDER p < int (length PROVIDER_ORDER)"
    using indexOf_range [of PROVIDER_ORDER p] by simp
  then show ?thesis
    using SetConfig by (auto simp: cursor_setConfig cursor_for_def length_PROVIDER_ORDER)
next
  case (FetchSettles h res)
  then show ?thesis
    using assms by (simp add: cursor_scanLoop_resume split: option.splits)
qed (use assms in \<open>simp_all add: cursor_start cursor_stop cursor_scanLoop split: option.splits\<close>)

lemma cursor_run:
  "currentProviderIndex s < length PROVIDER_ORDER \<Longrightarrow>
   currentProviderIndex (run cv evs s) < length PROVIDER_ORDER"
  by (induction evs arbitrary: s) (simp_all add: cursor_step)

text \<open>
  C10. \<^verbatim>\<open>setConfig\<close> with a provider that is not in \<^verbatim>\<open>PROVIDER_ORDER\<close> sets the cursor
  to 0, the index of ADSB_LOL. Every event maps a cursor below 3 to a cursor below 3, so the
  cursor is 0, 1 or 2 in every state that a run from the initial state reaches, where it
  selects a provider of the fixed sequence of three.
\<close>

theorem provider_cursor_valid:
  "(p \<notin> set PROVIDER_ORDER \<longrightarrow>
      currentProviderIndex (step cv (SetConfig p la lo rk) s) = 0 \<and>
      provider_at (currentProviderIndex (step cv (SetConfig p la lo rk) s)) = Some ''ADSB_LOL'') \<and>
   (currentProviderIndex s < 3 \<longrightarrow> currentProviderIndex (step cv e s) < 3) \<and>
   currentProviderIndex (run cv evs init) < 3 \<and>
   provider_at (currentProviderIndex (run cv evs init)) \<noteq> None \<and>
   length PROVIDER_ORDER = 3"
proof -
  have len: "length PROVIDER_ORDER = 3" by (rule length_PROVIDER_ORDER)
  have a: "p \<notin> set PROVIDER_ORDER \<longrightarrow>
      currentProviderIndex (step cv (SetConfig p la lo rk) s) = 0 \<and>
      provider_at (currentProviderIndex (step cv (SetConfig p la lo rk) s)) = Some ''ADSB_LOL''"
    by (simp add: cursor_setConfig cursor_for_def indexOf_absent provider_at_def PROVIDER_ORDER_def)
  have b: "currentProviderIndex s < 3 \<longrightarrow> currentProviderIndex (step cv e s) < 3"
    using cursor_step [of s cv e] by (simp add: len)
  have "currentProviderIndex init < length PROVIDER_ORDER" by (simp add: init_def len)
  then have c: "currentProviderIndex (run cv evs init) < 3"
    using cursor_run [of init cv evs] by (simp add: len)
  then have d: "provider_at (currentProviderIndex (run cv evs init)) \<noteq> None"
    by (simp add: provider_at_def len)
  from a b c d len show ?thesis by blast
qed

theorem provider_cursor_valid_witness:
  "''FLIGHTAWARE'' \<notin> set PROVIDER_ORDER \<and>
   currentProviderIndex (run no_conversion [SetConfig ''OPENSKY'' (Num 0) (Num 0) (Num 50)] init) = 2 \<and>
   currentProviderIndex (run no_conversion
     [SetConfig ''OPENSKY'' (Num 0) (Num 0) (Num 50),
      SetConfig ''FLIGHTAWARE'' (Num 0) (Num 0) (Num 50)] init) = 0"
  using provider_cursor_valid
    [of "''FLIGHTAWARE''" no_conversion "Num 0" "Num 0" "Num 50"
        "run no_conversion [SetConfig ''OPENSKY'' (Num 0) (Num 0) (Num 50)] init"
        "SetConfig ''FLIGHTAWARE'' (Num 0) (Num 0) (Num 50)"
        "[SetConfig ''OPENSKY'' (Num 0) (Num 0) (Num 50)]"]
  by (simp add: ctl_defs)

section \<open>Overlapping iterations\<close>

text \<open>
  C2 fails on the code. First run: \<^verbatim>\<open>start\<close> while the network is unreachable leaves the
  state FAULT and the 5000 ms retry timer pending; \<^verbatim>\<open>start\<close> again, with the network back,
  is not stopped by the guard (the state is not SCANNING) and issues a request without
  clearing that timer, so two scheduled operations are outstanding under the same token;
  the timer then fires into a second request, both requests succeed, two snapshots are
  emitted and two timers are pending, and the two chains of iterations go on side by side. Second run:
  the request issued before \<^verbatim>\<open>stop\<close> resumes with a successful answer after \<^verbatim>\<open>start\<close>
  has issued a new one; the token is the same, so the answer is processed and a timer is
  set next to the new request.
\<close>

theorem overlapping_iterations:
  "outstanding (run no_conversion [Net False, Start, Net True, Start] init) = 2 \<and>
   map rid (inflight (run no_conversion [Net False, Start, Net True, Start, TimerFires 1] init)) =
     [2, 3] \<and>
   length (updates (run no_conversion
     [Net False, Start, Net True, Start, TimerFires 1,
      FetchSettles 2 example_response, FetchSettles 3 example_response] init)) = 2 \<and>
   timers (run no_conversion
     [Net False, Start, Net True, Start, TimerFires 1,
      FetchSettles 2 example_response, FetchSettles 3 example_response] init) =
     [\<lparr>tid = 4, delay = 6000, tsession = 0\<rparr>, \<lparr>tid = 5, delay = 6000, tsession = 0\<rparr>] \<and>
   outstanding (run no_conversion [Start, Stop, Start] init) = 1 \<and>
   outstanding (run no_conversion [Start, Stop, Start, FetchSettles 1 example_response] init) = 2"
  by (simp add: ctl_defs fetch_defs outstanding_def example_response_def example_item_def)

section \<open>The projection example\<close>

lemma cos_taylor_bound:
  fixes x :: real
  shows "\<bar>cos x - (\<Sum>m<n. cos_coeff m * x ^ m)\<bar> \<le> \<bar>x\<bar> ^ n / fact n"
proof -
  obtain t where t: "cos x = (\<Sum>m<n. cos_coeff m * x ^ m) + (cos (t + 1/2 * real n * pi) / fact n) * x ^ n"
    using Maclaurin_cos_expansion [of x n] by blast
  have "\<bar>cos x - (\<Sum>m<n. cos_coeff m * x ^ m)\<bar> = \<bar>cos (t + 1/2 * real n * pi)\<bar> * (\<bar>x\<bar> ^ n / fact n)"
    by (simp add: t abs_mult power_abs)
  also have "\<dots> \<le> 1 * (\<bar>x\<bar> ^ n / fact n)"
    by (rule mult_right_mono) simp_all
  finally show ?thesis by simp
qed

lemma cos_poly_sum: "(\<Sum>m<12. cos_coeff m * x ^ m) = cos_poly x"
  by (simp add: cos_poly_def cos_coeff_def lessThan_nat_numeral lessThan_Suc fact_numeral)

lemma cos_enclosure: "\<bar>cos x - cos_poly x\<bar> \<le> \<bar>x\<bar> ^ 12 / 479001600"
  using cos_taylor_bound [of x 12] by (simp add: cos_poly_sum fact_numeral)

lemma cos_lower: "cos_poly x - \<bar>x\<bar> ^ 12 / 479001600 \<le> cos x"
  using cos_enclosure [of x] by linarith

lemma cos_upper: "cos x \<le> cos_poly x + \<bar>x\<bar> ^ 12 / 479001600"
  using cos_enclosure [of x] by linarith

lemma pi_lower: "3.141 < pi"
proof -
  have "(0::real) < cos_poly (3141/2000) - \<bar>3141/2000\<bar> ^ 12 / 479001600"
    by (simp add: cos_poly_def power_divide)
  then have pos: "0 < cos (3141/2000 :: real)"
    using cos_lower [of "3141/2000"] by linarith
  have "(3141/2000 :: real) < pi / 2"
  proof (rule ccontr)
    assume "\<not> 3141/2000 < pi / 2"
    then have "pi / 2 \<le> 3141/2000" by simp
    moreover have "(3141/2000 :: real) \<le> pi" using pi_ge_two by simp
    ultimately have "cos (3141/2000) \<le> cos (pi / 2)"
      by (intro cos_monotone_0_pi_le) simp_all
    with pos show False by simp
  qed
  then show ?thesis by simp
qed

lemma pi_upper: "pi < 3.1417"
proof -
  have "cos_poly (31417/20000) + \<bar>31417/20000\<bar> ^ 12 / 479001600 < (0::real)"
    by (simp add: cos_poly_def power_divide)
  then have neg: "cos (31417/20000 :: real) < 0"
    using cos_upper [of "31417/20000"] by linarith
  have "pi / 2 < (31417/20000 :: real)"
  proof (rule ccontr)
    assume "\<not> pi / 2 < 31417/20000"
    then have "(31417/20000 :: real) \<le> pi / 2" by simp
    then have "0 \<le> cos (31417/20000 :: real)"
      by (intro cos_ge_zero) simp_all
    with neg show False by simp
  qed
  then show ?thesis by simp
qed

lemma cos_51_degrees: "0.62927 < cos (51 * pi / 180)" "cos (51 * pi / 180) < 0.6297"
proof -
  have x: "53397/60000 \<le> 51 * pi / 180" "51 * pi / 180 \<le> 534089/600000"
    using pi_lower pi_upper by simp_all
  have "(0.62927::real) < cos_poly (534089/600000) - \<bar>534089/600000\<bar> ^ 12 / 479001600"
    by (simp add: cos_poly_def power_divide)
  then have lo: "0.62927 < cos (534089/600000 :: real)"
    using cos_lower [of "534089/600000"] by linarith
  have "cos_poly (53397/60000) + \<bar>53397/60000\<bar> ^ 12 / 479001600 < (0.6297::real)"
    by (simp add: cos_poly_def power_divide)
  then have hi: "cos (53397/60000 :: real) < 0.6297"
    using cos_upper [of "53397/60000"] by linarith
  have "cos (534089/600000) \<le> cos (51 * pi / 180)"
    using x pi_lower by (intro cos_monotone_0_pi_le) simp_all
  with lo show "0.62927 < cos (51 * pi / 180)" by simp
  have "cos (51 * pi / 180) \<le> cos (53397/60000)"
    using x pi_lower by (intro cos_monotone_0_pi_le) simp_all
  with hi show "cos (51 * pi / 180) < 0.6297" by simp
qed

lemma example_target:
  "processTargets cv (Num 51) (Num 0) (JArr [example_item]) =
     Inr [\<lparr> position_x = Num (0.02 * (111320 * cos (51 * pi / 180))),
            position_y = Num 1105.74,
            velocity_vx = Num 231.4998, velocity_vy = Num 0,
            altitude = Num 10668,
            geo_lat = Num 51.01, geo_lon = Num 0.02, geo_track = Num 90 \<rparr>]"
  by (simp add: processTargets_def process_item_def the_prop_def example_item_def Let_def
      String_js_def or_js_def and_then_def)

lemma example_x: "1401 < 0.02 * (111320 * cos (51 * pi / 180))"
  "0.02 * (111320 * cos (51 * pi / 180)) < (1402::real)"
  using cos_51_degrees by simp_all

text \<open>
  C8, as the specification states it, fails in its first figure: for the origin
  (51.0, 0.0) and the record of the example, the x coordinate that \<^verbatim>\<open>processTargets\<close>
  computes is more than 9 m away from 1392 m.
\<close>

theorem spec_x_figure_counterexample:
  "\<not> close_to 9
       (position_x (hd (projr (processTargets no_conversion (Num 51) (Num 0) (JArr [example_item])))))
       1392"
  using example_x by (simp add: example_target)

text \<open>
  C8, amended. For the origin (51.0, 0.0) and the record with lat 51.01, lon 0.02,
  altitude 35000 ft, ground speed 450 kn and heading 90 degrees, \<^verbatim>\<open>processTargets\<close>
  yields one target with x between 1401 m and 1402 m, y = 1105.74 m, altitude 10668 m
  and velocity (231.4998, 0) m/s, over the reals.
\<close>

theorem example_projection:
  "\<exists>t x. processTargets cv (Num 51) (Num 0) (JArr [example_item]) = Inr [t] \<and>
     position_x t = Num x \<and> 1401 < x \<and> x < 1402 \<and>
     position_y t = Num 1105.74 \<and>
     altitude t = Num 10668 \<and>
     velocity_vx t = Num 231.4998 \<and> velocity_vy t = Num 0 \<and>
     close_to 1 (position_x t) 1401 \<and> close_to 1 (position_y t) 1105 \<and>
     close_to 1 (altitude t) 10668 \<and> close_to 1 (velocity_vx t) 231.5 \<and>
     close_to 1 (velocity_vy t) 0"
proof -
  define x :: real where "x = 0.02 * (111320 * cos (51 * pi / 180))"
  define t where "t = \<lparr> position_x = Num x, position_y = Num 1105.74,
            velocity_vx = Num 231.4998, velocity_vy = Num 0,
            altitude = Num 10668,
            geo_lat = Num 51.01, geo_lon = Num 0.02, geo_track = Num 90 \<rparr>"
  have res: "processTargets cv (Num 51) (Num 0) (JArr [example_item]) = Inr [t]"
    unfolding t_def x_def by (rule example_target)
  have bx: "1401 < x" "x < 1402"
    unfolding x_def by (rule example_x)+
  have "position_x t = Num x \<and> 1401 < x \<and> x < 1402 \<and>
     position_y t = Num 1105.74 \<and>
     altitude t = Num 10668 \<and>
     velocity_vx t = Num 231.4998 \<and> velocity_vy t = Num 0 \<and>
     close_to 1 (position_x t) 1401 \<and> close_to 1 (position_y t) 1105 \<and>
     close_to 1 (altitude t) 10668 \<and> close_to 1 (velocity_vx t) 231.5 \<and>
     close_to 1 (velocity_vy t) 0"
    using bx by (simp add: t_def)
  with res show ?thesis by blast
qed

end
